theory Spec2Isabelle
  imports Complex_Main "HOL-Library.AList" "HOL-Library.Log_Nat"
begin

section \<open>Python values used by the SimplyPrint component\<close>

text \<open>
  The component \<^verbatim>\<open>moonraker/components/simplyprint.py\<close> works on Python dictionaries with
  string keys, on JSON values and on numbers. The embedding uses
  \<^item> an association list for a dictionary (insertion order, one entry per key);
    \<^verbatim>\<open>d[k] = v\<close> is \<open>AList.update\<close>, \<^verbatim>\<open>d.pop(k)\<close> is \<open>AList.delete\<close>,
    \<^verbatim>\<open>k in d\<close> and \<^verbatim>\<open>d[k]\<close> go through \<open>map_of\<close>;
  \<^item> \<open>int\<close> for Python's unbounded integers;
  \<^item> the type \<open>pyfloat\<close> below for a Python float, with the rounding of IEEE doubles, in
    the methods of class \<^verbatim>\<open>SimplyPrint\<close>; class \<^verbatim>\<open>LayerDetect\<close> is modelled over
    \<open>real\<close>, and its statements are about values on which doubles compute exactly.
\<close>

type_synonym 'v dict = "(string \<times> 'v) list"

text \<open>\<^verbatim>\<open>d.update(other)\<close>: the entries of \<open>other\<close> are stored one after the other.\<close>

definition dict_update :: "'v dict \<Rightarrow> 'v dict \<Rightarrow> 'v dict" where
  "dict_update d other = fold (\<lambda>(k, v) acc. AList.update k v acc) other d"

text \<open>\<^verbatim>\<open>int(x)\<close> on a finite float truncates towards zero.\<close>

definition py_int :: "real \<Rightarrow> int" where
  "py_int x = (if 0 \<le> x then \<lfloor>x\<rfloor> else \<lceil>x\<rceil>)"

section \<open>The diff helper\<close>

text \<open>
  \<^verbatim>\<open>
  def _get_object_diff(self, new_obj, cached_obj):
      if not cached_obj:
          return new_obj
      diff = {}
      for key, val in new_obj.items():
          if key in cached_obj and val == cached_obj[key]:
              continue
          diff[key] = val
      return diff
  \<close>
  The loop is a recursion over the items of \<open>new_obj\<close> with the dictionary \<open>diff\<close> as
  accumulator.
\<close>

fun diff_loop :: "'v dict \<Rightarrow> 'v dict \<Rightarrow> 'v dict \<Rightarrow> 'v dict" where
  "diff_loop [] cached_obj diff = diff"
| "diff_loop ((key, val) # items) cached_obj diff =
     (if map_of cached_obj key = Some val then diff_loop items cached_obj diff
      else diff_loop items cached_obj (AList.update key val diff))"

definition get_object_diff :: "'v dict \<Rightarrow> 'v dict \<Rightarrow> 'v dict" where
  "get_object_diff new_obj cached_obj =
     (if cached_obj = [] then new_obj else diff_loop new_obj cached_obj [])"

section \<open>Errors and outcomes\<close>

text \<open>
  A Python exception is a value. A method that mutates the object before it raises leaves
  the mutation behind, so both outcomes carry the state reached.
\<close>

datatype py_error =
  AttributeError | TypeError | KeyError | IndexError | ZeroDivisionError | UnboundLocalError |
  OverflowError | ValueError

datatype 'a outcome = Returned 'a | Raised py_error 'a

fun outcome_state :: "'a outcome \<Rightarrow> 'a" where
  "outcome_state (Returned s) = s"
| "outcome_state (Raised e s) = s"

section \<open>Python numbers\<close>

text \<open>
  A Python float is an IEEE double: a finite number, an infinity or NaN. \<open>Fin r\<close> stands
  for the double nearest to \<open>r\<close>, as a literal does in Python (\<^verbatim>\<open>0.1\<close> is the double
  nearest to one tenth); every operation below first replaces its float operands by
  that double (\<open>fnorm\<close>) and rounds its exact result again, which is how IEEE defines
  \<^verbatim>\<open>+\<close>, \<^verbatim>\<open>-\<close>, \<^verbatim>\<open>*\<close> and \<^verbatim>\<open>/\<close>. The sign of a zero is not kept: no expression of the
  component tells \<^verbatim>\<open>-0.0\<close> from \<^verbatim>\<open>0.0\<close>.

  \<open>round_double x\<close> is \<open>x\<close> rounded to the nearest double, ties to the even mantissa.
  For \<open>2 ^ e \<le> \<bar>x\<bar> < 2 ^ (e + 1)\<close> the doubles around \<open>x\<close> are the multiples of
  \<open>2 ^ (e - 52)\<close>, and of \<open>2 ^ - 1074\<close> in the subnormal range; a result of magnitude
  \<open>2 ^ 1024\<close> or more is an infinity. \<open>ilog2 x\<close> is the exponent \<open>e\<close> of a positive
  \<open>x\<close>, computed from the bit length of an integer as \<^verbatim>\<open>int.bit_length\<close> does.
\<close>

datatype pyfloat = Fin real | PInf | NInf | NaN

definition pow2 :: "int \<Rightarrow> real" where
  "pow2 e = (if 0 \<le> e then 2 ^ nat e else 1 / 2 ^ nat (- e))"

definition ilog2 :: "real \<Rightarrow> int" where
  "ilog2 x = (if 1 \<le> x then bitlen \<lfloor>x\<rfloor> - 1 else - bitlen (\<lceil>1 / x\<rceil> - 1))"

definition round_even :: "real \<Rightarrow> int" where
  "round_even r =
     (if r - of_int \<lfloor>r\<rfloor> < 1 / 2 then \<lfloor>r\<rfloor>
      else if 1 / 2 < r - of_int \<lfloor>r\<rfloor> then \<lfloor>r\<rfloor> + 1
      else if even \<lfloor>r\<rfloor> then \<lfloor>r\<rfloor> else \<lfloor>r\<rfloor> + 1)"

definition round_double :: "real \<Rightarrow> pyfloat" where
  "round_double x =
     (if x = 0 then Fin 0
      else
        (let q = pow2 (max (ilog2 \<bar>x\<bar> - 52) (- 1074));
             v = of_int (round_even (x / q)) * q
         in if 2 ^ 1024 \<le> v then PInf else if v \<le> - (2 ^ 1024) then NInf else Fin v))"

fun fnorm :: "pyfloat \<Rightarrow> pyfloat" where
  "fnorm (Fin r) = round_double r"
| "fnorm f = f"

text \<open>The operations on doubles; the operands are doubles already.\<close>

fun fneg :: "pyfloat \<Rightarrow> pyfloat" where
  "fneg (Fin a) = Fin (- a)"
| "fneg PInf = NInf"
| "fneg NInf = PInf"
| "fneg NaN = NaN"

fun fabs :: "pyfloat \<Rightarrow> pyfloat" where
  "fabs (Fin a) = Fin \<bar>a\<bar>"
| "fabs PInf = PInf"
| "fabs NInf = PInf"
| "fabs NaN = NaN"

fun fadd :: "pyfloat \<Rightarrow> pyfloat \<Rightarrow> pyfloat" where
  "fadd (Fin a) (Fin b) = round_double (a + b)"
| "fadd NaN y = NaN"
| "fadd x NaN = NaN"
| "fadd PInf NInf = NaN"
| "fadd NInf PInf = NaN"
| "fadd PInf y = PInf"
| "fadd x PInf = PInf"
| "fadd NInf y = NInf"
| "fadd x NInf = NInf"

definition fsub :: "pyfloat \<Rightarrow> pyfloat \<Rightarrow> pyfloat" where
  "fsub x y = fadd x (fneg y)"

text \<open>
  \<^verbatim>\<open>x * c\<close> and \<^verbatim>\<open>x / c\<close> for a positive finite constant \<open>c\<close> (the component multiplies
  by 100 and divides by 1000 only).
\<close>

fun fmul_pos :: "pyfloat \<Rightarrow> real \<Rightarrow> pyfloat" where
  "fmul_pos (Fin a) c = round_double (a * c)"
| "fmul_pos x c = x"

fun fdiv_pos :: "pyfloat \<Rightarrow> real \<Rightarrow> pyfloat" where
  "fdiv_pos (Fin a) c = round_double (a / c)"
| "fdiv_pos x c = x"

text \<open>\<^verbatim>\<open>x < y\<close>, \<^verbatim>\<open>x == y\<close> and \<^verbatim>\<open>x <= y\<close>: every comparison with NaN is false.\<close>

fun flt :: "pyfloat \<Rightarrow> pyfloat \<Rightarrow> bool" where
  "flt (Fin a) (Fin b) = (a < b)"
| "flt NaN y = False"
| "flt x NaN = False"
| "flt NInf NInf = False"
| "flt NInf y = True"
| "flt x NInf = False"
| "flt PInf y = False"
| "flt x PInf = True"

definition feq :: "pyfloat \<Rightarrow> pyfloat \<Rightarrow> bool" where
  "feq x y = (x \<noteq> NaN \<and> x = y)"

definition fle :: "pyfloat \<Rightarrow> pyfloat \<Rightarrow> bool" where
  "fle x y = (flt x y \<or> feq x y)"

text \<open>
  \<^verbatim>\<open>int(x)\<close> on a float: truncation, \<^verbatim>\<open>OverflowError\<close> on an infinity and
  \<^verbatim>\<open>ValueError\<close> on NaN.
\<close>

fun int_of_float :: "pyfloat \<Rightarrow> py_error + int" where
  "int_of_float (Fin a) = Inr (py_int a)"
| "int_of_float NaN = Inl ValueError"
| "int_of_float x = Inl OverflowError"

text \<open>
  A Python number is an integer or a float. In arithmetic with a float an integer is
  converted to the nearest double first, which raises \<^verbatim>\<open>OverflowError\<close> when the integer
  is too large; two integers are subtracted and multiplied exactly. Comparisons between
  an integer and a float are exact (\<open>exact\<close> gives the value compared).
\<close>

datatype pynum = PInt int | PFloat pyfloat

fun to_float :: "pynum \<Rightarrow> py_error + pyfloat" where
  "to_float (PInt n) =
     (case round_double (of_int n) of Fin v \<Rightarrow> Inr (Fin v) | _ \<Rightarrow> Inl OverflowError)"
| "to_float (PFloat f) = Inr (fnorm f)"

fun num_sub :: "pynum \<Rightarrow> pynum \<Rightarrow> py_error + pynum" where
  "num_sub (PInt a) (PInt b) = Inr (PInt (a - b))"
| "num_sub x y =
     (case to_float x of
        Inl e \<Rightarrow> Inl e
      | Inr a \<Rightarrow> (case to_float y of Inl e \<Rightarrow> Inl e | Inr b \<Rightarrow> Inr (PFloat (fsub a b))))"

fun num_abs :: "pynum \<Rightarrow> pynum" where
  "num_abs (PInt a) = PInt \<bar>a\<bar>"
| "num_abs (PFloat f) = PFloat (fabs (fnorm f))"

fun exact :: "pynum \<Rightarrow> pyfloat" where
  "exact (PInt n) = Fin (of_int n)"
| "exact (PFloat f) = fnorm f"

definition num_lt :: "pynum \<Rightarrow> pynum \<Rightarrow> bool" where
  "num_lt x y = flt (exact x) (exact y)"

definition num_le :: "pynum \<Rightarrow> pynum \<Rightarrow> bool" where
  "num_le x y = fle (exact x) (exact y)"

definition num_eq :: "pynum \<Rightarrow> pynum \<Rightarrow> bool" where
  "num_eq x y = feq (exact x) (exact y)"

text \<open>\<^verbatim>\<open>x + .5\<close>, \<^verbatim>\<open>x * 100\<close> and \<^verbatim>\<open>x / 1000.\<close> on a number.\<close>

definition add_half :: "pynum \<Rightarrow> py_error + pyfloat" where
  "add_half x = (case to_float x of Inl e \<Rightarrow> Inl e | Inr f \<Rightarrow> Inr (fadd f (Fin (1 / 2))))"

fun times_100 :: "pynum \<Rightarrow> pynum" where
  "times_100 (PInt n) = PInt (n * 100)"
| "times_100 (PFloat f) = PFloat (fmul_pos (fnorm f) 100)"

definition div_1000 :: "pynum \<Rightarrow> py_error + pyfloat" where
  "div_1000 x = (case to_float x of Inl e \<Rightarrow> Inl e | Inr f \<Rightarrow> Inr (fdiv_pos f 1000))"

section \<open>JSON values\<close>

text \<open>
  What \<^verbatim>\<open>json.loads\<close> produces, and what the component stores and sends. Python's
  \<^verbatim>\<open>None\<close> is \<open>JNull\<close>; a number is an integer or a float, as in Python.
\<close>

datatype jval =
  JNull | JBool bool | JInt int | JFloat pyfloat | JStr string | JArr "jval list" |
  JObj "(string \<times> jval) list"

text \<open>\<^verbatim>\<open>d.get(k)\<close> and \<^verbatim>\<open>d.get(k, default)\<close>.\<close>

definition dict_get :: "jval dict \<Rightarrow> string \<Rightarrow> jval" where
  "dict_get d k = (case map_of d k of None \<Rightarrow> JNull | Some v \<Rightarrow> v)"

definition dict_get_default :: "'v dict \<Rightarrow> string \<Rightarrow> 'v \<Rightarrow> 'v" where
  "dict_get_default d k dflt = (case map_of d k of None \<Rightarrow> dflt | Some v \<Rightarrow> v)"

text \<open>
  The number a value stands for in Python arithmetic and numeric comparison: a bool is
  the integer 0 or 1; any other non-number makes arithmetic raise \<^verbatim>\<open>TypeError\<close>.
\<close>

fun num_of :: "jval \<Rightarrow> pynum option" where
  "num_of (JInt n) = Some (PInt n)"
| "num_of (JFloat f) = Some (PFloat f)"
| "num_of (JBool b) = Some (PInt (if b then 1 else 0))"
| "num_of v = None"

text \<open>\<^verbatim>\<open>int(v + .5)\<close> on a value.\<close>

definition round_half :: "jval \<Rightarrow> py_error + int" where
  "round_half v =
     (case num_of v of
        None \<Rightarrow> Inl TypeError
      | Some x \<Rightarrow> (case add_half x of Inl e \<Rightarrow> Inl e | Inr f \<Rightarrow> int_of_float f))"

text \<open>Truth value of a JSON value in an \<^verbatim>\<open>if\<close>.\<close>

fun truthy :: "jval \<Rightarrow> bool" where
  "truthy JNull = False"
| "truthy (JBool b) = b"
| "truthy (JInt n) = (n \<noteq> 0)"
| "truthy (JFloat f) = (fnorm f \<noteq> Fin 0)"
| "truthy (JStr s) = (s \<noteq> [])"
| "truthy (JArr xs) = (xs \<noteq> [])"
| "truthy (JObj d) = (d \<noteq> [])"

fun is_str :: "jval \<Rightarrow> bool" where
  "is_str (JStr s) = True"
| "is_str v = False"

section \<open>LayerDetect\<close>

text \<open>
  The metadata of a job file, as the file manager returns it: every entry is optional.
  An empty dictionary is the record with every field \<open>None\<close>. The estimated time
  enters the arithmetic of \<^verbatim>\<open>SimplyPrint\<close> and is a Python number.
\<close>

record metadata =
  filament_total :: "real option"
  estimated_time :: "pynum option"
  layer_height :: "real option"
  first_layer_height :: "real option"
  layer_count :: "int option"
  object_height :: "real option"

definition empty_metadata :: metadata where
  "empty_metadata = \<lparr>filament_total = None, estimated_time = None, layer_height = None,
     first_layer_height = None, layer_count = None, object_height = None\<rparr>"

text \<open>The fields of class \<^verbatim>\<open>LayerDetect\<close>; \<open>l_layer\<close> is \<^verbatim>\<open>self._layer\<close> and so on.\<close>

record layer_detect =
  l_layer :: int
  l_layer_z :: real
  l_active :: bool
  l_layer_height :: real
  l_fl_height :: real
  l_layer_count :: int
  l_check_next :: bool

text \<open>\<^verbatim>\<open>LayerDetect.__init__\<close> and \<^verbatim>\<open>reset\<close> set the same values.\<close>

definition LayerDetect_init :: layer_detect where
  "LayerDetect_init = \<lparr>l_layer = 0, l_layer_z = 0, l_active = False, l_layer_height = 0,
     l_fl_height = 0, l_layer_count = 99999999999, l_check_next = False\<rparr>"

definition LayerDetect_reset :: "layer_detect \<Rightarrow> layer_detect" where
  "LayerDetect_reset ld = ld\<lparr>l_active := False, l_layer := 0, l_layer_z := 0,
     l_layer_height := 0, l_fl_height := 0, l_layer_count := 99999999999,
     l_check_next := False\<rparr>"

text \<open>
  \<^verbatim>\<open>
  def update(self, new_pos):
      if not self._active or self._layer_z == new_pos[2]:
          self._check_next = False
          return
      if not self._check_next:
          # Try to avoid z-hops by skipping the first detected change
          self._check_next = True
          return
      self._check_next = False
      layer = 1 + int(
          (new_pos[2] - self._fl_height) / self._layer_height + .5
      )
      self._layer = min(layer, self._layer_count)
      self._layer_z = new_pos[2]
  \<close>
  \<^verbatim>\<open>new_pos[2]\<close> raises on a position with fewer than three coordinates (it is read only
  when the detector is active), the division raises on a zero layer height.
\<close>

definition LayerDetect_update :: "layer_detect \<Rightarrow> real list \<Rightarrow> layer_detect outcome" where
  "LayerDetect_update ld new_pos =
     (if \<not> l_active ld then Returned (ld\<lparr>l_check_next := False\<rparr>)
      else if length new_pos < 3 then Raised IndexError ld
      else if l_layer_z ld = new_pos ! 2 then Returned (ld\<lparr>l_check_next := False\<rparr>)
      else if \<not> l_check_next ld then Returned (ld\<lparr>l_check_next := True\<rparr>)
      else if l_layer_height ld = 0
        then Raised ZeroDivisionError (ld\<lparr>l_check_next := False\<rparr>)
      else
        (let layer = 1 + py_int ((new_pos ! 2 - l_fl_height ld) / l_layer_height ld + 1 / 2)
         in Returned (ld\<lparr>l_check_next := False,
              l_layer := min layer (l_layer_count ld), l_layer_z := new_pos ! 2\<rparr>)))"

text \<open>
  \<^verbatim>\<open>
  def start(self, metadata):
      self.reset()
      lh = metadata.get("layer_height")
      flh = metadata.get("first_layer_height", lh)
      if lh is not None and flh is not None:
          self._active = True
          self._layer_height = lh
          self._fl_height = flh
          layer_count = metadata.get("layer_count")
          obj_height = metadata.get("object_height")
          if layer_count is not None:
              self._layer_count = layer_count
          elif obj_height is not None:
              self._layer_count = int((obj_height - flh) / lh + .5)
  \<close>
\<close>

definition LayerDetect_start :: "layer_detect \<Rightarrow> metadata \<Rightarrow> layer_detect outcome" where
  "LayerDetect_start ld0 md =
     (let ld = LayerDetect_reset ld0;
          lh = layer_height md;
          flh = (case first_layer_height md of None \<Rightarrow> lh | Some f \<Rightarrow> Some f)
      in case (lh, flh) of
           (Some h, Some f) \<Rightarrow>
             (let ld1 = ld\<lparr>l_active := True, l_layer_height := h, l_fl_height := f\<rparr>
              in case layer_count md of
                   Some c \<Rightarrow> Returned (ld1\<lparr>l_layer_count := c\<rparr>)
                 | None \<Rightarrow>
                     (case object_height md of
                        None \<Rightarrow> Returned ld1
                      | Some oh \<Rightarrow>
                          if h = 0 then Raised ZeroDivisionError ld1
                          else Returned (ld1\<lparr>l_layer_count := py_int ((oh - f) / h + 1 / 2)\<rparr>)))
         | _ \<Rightarrow> Returned ld)"

definition LayerDetect_resume :: "layer_detect \<Rightarrow> layer_detect" where
  "LayerDetect_resume ld = ld\<lparr>l_active := True\<rparr>"

definition LayerDetect_stop :: "layer_detect \<Rightarrow> layer_detect" where
  "LayerDetect_stop ld = ld\<lparr>l_active := False\<rparr>"

text \<open>A stream of positions, fed to \<open>update\<close> one after the other; an exception ends it.\<close>

fun LayerDetect_updates :: "layer_detect \<Rightarrow> real list list \<Rightarrow> layer_detect outcome" where
  "LayerDetect_updates ld [] = Returned ld"
| "LayerDetect_updates ld (p # ps) =
     (case LayerDetect_update ld p of
        Raised e ld' \<Rightarrow> Raised e ld'
      | Returned ld' \<Rightarrow> LayerDetect_updates ld' ps)"

section \<open>The state of the component\<close>

text \<open>Class \<^verbatim>\<open>ReportCache\<close>. A cached temperature is the pair \<^verbatim>\<open>[current, target]\<close>.\<close>

record report_cache =
  state :: string
  temps :: "(int \<times> int) dict"
  metadata :: metadata
  mesh :: "jval dict"
  job_info :: "jval dict"
  active_extruder :: string
  firmware_info :: "jval dict"
  machine_info :: "jval dict"
  cpu_info :: "jval dict"
  current_wsid :: "int option"

definition ReportCache_init :: report_cache where
  "ReportCache_init = \<lparr>state = ''offline'', temps = [], metadata = empty_metadata, mesh = [],
     job_info = [], active_extruder = [], firmware_info = [], machine_info = [],
     cpu_info = [], current_wsid = None\<rparr>"

text \<open>
  An outbound frame \<^verbatim>\<open>{"type": evt_name, "data": data}\<close>, a coroutine handed to
  \<^verbatim>\<open>eventloop.create_task\<close>, and the connect URL: either the configured one or
  \<^verbatim>\<open>f"{ep}/{printer_id}/{token}"\<close>, kept as its three parts.
\<close>

type_synonym frame = "string \<times> jval"

datatype task = RequestPrintAction jval | RunGcode string | SendMachineData

datatype url = ConfigUrl string | EndpointUrl string jval jval

text \<open>
  The fields of class \<^verbatim>\<open>SimplyPrint\<close> that the modelled methods read or write.
  \<open>ws_open\<close> is \<^verbatim>\<open>self.ws is not None\<close>, \<open>keepalive_hdl\<close> says whether a keepalive
  timer is pending, \<open>ambient\<close> is \<^verbatim>\<open>self.amb_detect.ambient\<close>. Four fields record the
  effects on the collaborators, each in order: \<open>sent\<close> the frames written to the socket,
  \<open>tasks\<close> the coroutines created, \<open>klippy_calls\<close> the print actions requested from
  \<^verbatim>\<open>klippy_apis\<close>, and \<open>slept\<close> the delays of \<^verbatim>\<open>asyncio.sleep\<close>.
\<close>

record sp =
  sp_info :: "jval dict"
  spdb :: "jval dict"
  test :: bool
  ws_open :: bool
  cache :: report_cache
  ambient :: int
  layer_detect :: layer_detect
  last_received_temps :: "jval dict"
  intervals :: "pyfloat dict"
  printer_status :: "(jval dict) dict"
  heaters :: "string dict"
  missed_job_events :: "(jval dict) list"
  keepalive_hdl :: bool
  reconnect_delay :: real
  reconnect_token :: jval
  next_temp_update_time :: pyfloat
  gcode_terminal_enabled :: jval
  connected :: bool
  is_set_up :: bool
  connect_url :: url
  sent :: "frame list"
  tasks :: "task list"
  klippy_calls :: "string list"
  slept :: "real list"

definition TEST_ENDPOINT :: string where
  "TEST_ENDPOINT = ''wss://testws.simplyprint.io/0.1/p''"

definition PROD_ENDPOINT :: string where
  "PROD_ENDPOINT = ''wss://ws.simplyprint.io/0.1/p''"

definition INITIAL_AMBIENT :: int where
  "INITIAL_AMBIENT = 85"

text \<open>
  \<^verbatim>\<open>
  def _save_item(self, name, data):
      self.sp_info[name] = data
      self.spdb[name] = data
  \<close>
\<close>

definition save_item :: "string \<Rightarrow> jval \<Rightarrow> sp \<Rightarrow> sp" where
  "save_item name data s =
     s\<lparr>sp_info := AList.update name data (sp_info s), spdb := AList.update name data (spdb s)\<rparr>"

text \<open>
  \<^verbatim>\<open>
  def _set_ws_url(self):
      token = self.sp_info.get("printer_token")
      printer_id = self.sp_info.get("printer_id")
      ep = TEST_ENDPOINT if self.test else PROD_ENDPOINT
      self.connect_url = f"{ep}/0/0"
      if token is not None:
          if printer_id is None:
              self.connect_url = f"{ep}/0/{token}"
          else:
              self.is_set_up = True
              self.connect_url = f"{ep}/{printer_id}/{token}"
  \<close>
\<close>

definition set_ws_url :: "sp \<Rightarrow> sp" where
  "set_ws_url s =
     (let token = dict_get (sp_info s) ''printer_token'';
          printer_id = dict_get (sp_info s) ''printer_id'';
          ep = (if test s then TEST_ENDPOINT else PROD_ENDPOINT)
      in if token \<noteq> JNull then
           (if printer_id = JNull then s\<lparr>connect_url := EndpointUrl ep (JStr ''0'') token\<rparr>
            else s\<lparr>is_set_up := True, connect_url := EndpointUrl ep printer_id token\<rparr>)
         else s\<lparr>connect_url := EndpointUrl ep (JStr ''0'') (JStr ''0'')\<rparr>)"

text \<open>
  \<^verbatim>\<open>SimplyPrint.__init__\<close>. The configuration gives the option \<^verbatim>\<open>sp_test\<close>, the optional
  \<^verbatim>\<open>url\<close> and the persisted namespace of the database; the persisted ambient temperature
  is an integer that \<^verbatim>\<open>_on_ambient_changed\<close> stored.
\<close>

record config =
  cfg_sp_test :: bool
  cfg_url :: "string option"
  cfg_db :: "jval dict"

definition SimplyPrint_init :: "config \<Rightarrow> sp" where
  "SimplyPrint_init cfg =
     (let s = \<lparr>sp_info = cfg_db cfg, spdb = cfg_db cfg, test = cfg_sp_test cfg, ws_open = False,
                cache = ReportCache_init,
                ambient = (case map_of (cfg_db cfg) ''ambient_temp'' of
                             Some (JInt a) \<Rightarrow> a | _ \<Rightarrow> INITIAL_AMBIENT),
                layer_detect = LayerDetect_init, last_received_temps = [],
                intervals = [(''job'', Fin 1), (''temps'', Fin 1), (''temps_target'', Fin (1 / 4)),
                             (''cpu'', Fin 10)],
                printer_status = [], heaters = [], missed_job_events = [],
                keepalive_hdl = False, reconnect_delay = 1, reconnect_token = JNull,
                next_temp_update_time = Fin 0, gcode_terminal_enabled = JBool False,
                connected = False, is_set_up = False, connect_url = ConfigUrl [],
                sent = [], tasks = [], klippy_calls = [], slept = []\<rparr>
      in case cfg_url cfg of
           Some u \<Rightarrow> s\<lparr>connect_url := ConfigUrl u, is_set_up := True\<rparr>
         | None \<Rightarrow> set_ws_url s)"

section \<open>Sending\<close>

text \<open>
  \<^verbatim>\<open>
  def _reset_keepalive(self):
      if self.keepalive_hdl is not None:
          self.keepalive_hdl.cancel()
      self.keepalive_hdl = self.eventloop.delay_callback(KEEPALIVE_TIME, self._do_keepalive)

  def _send_sp(self, evt_name, data):
      if not self.connected or self.ws is None:
          fut = self.eventloop.create_future()
          fut.set_result(False)
          return fut
      packet = {"type": evt_name, "data": data}
      self._reset_keepalive()
      return self.ws.write_message(json.dumps(packet))
  \<close>
  No modelled caller looks at the future that \<^verbatim>\<open>_send_sp\<close> returns.
\<close>

definition reset_keepalive :: "sp \<Rightarrow> sp" where
  "reset_keepalive s = s\<lparr>keepalive_hdl := True\<rparr>"

definition send_sp :: "string \<Rightarrow> jval \<Rightarrow> sp \<Rightarrow> sp" where
  "send_sp evt_name data s =
     (if \<not> connected s \<or> \<not> ws_open s then s
      else (reset_keepalive s)\<lparr>sent := sent s @ [(evt_name, data)]\<rparr>)"

text \<open>
  \<^verbatim>\<open>
  def _update_state(self, new_state):
      if self.cache.state == new_state:
          return
      self.cache.state = new_state
      self._send_sp("state_change", {"new": new_state})
  \<close>
\<close>

definition update_state :: "string \<Rightarrow> sp \<Rightarrow> sp" where
  "update_state new_state s =
     (if state (cache s) = new_state then s
      else send_sp ''state_change'' (JObj [(''new'', JStr new_state)])
             (s\<lparr>cache := (cache s)\<lparr>state := new_state\<rparr>\<rparr>))"

text \<open>
  \<^verbatim>\<open>
  def _send_job_event(self, job_info):
      if self.connected:
          self._send_sp("job_info", job_info)
      else:
          job_info.update(self.cache.job_info)
          job_info["delay"] = self.eventloop.get_loop_time()
          self.missed_job_events.append(job_info)
          if len(self.missed_job_events) > 10:
              self.missed_job_events.pop(0)
  \<close>
  \<open>curtime\<close> is the loop time at the call.
\<close>

definition missed_event :: "jval dict \<Rightarrow> pyfloat \<Rightarrow> sp \<Rightarrow> jval dict" where
  "missed_event job_info_arg curtime s =
     AList.update ''delay'' (JFloat curtime) (dict_update job_info_arg (job_info (cache s)))"

definition send_job_event :: "jval dict \<Rightarrow> pyfloat \<Rightarrow> sp \<Rightarrow> sp" where
  "send_job_event job_info_arg curtime s =
     (if connected s then send_sp ''job_info'' (JObj job_info_arg) s
      else
        (let appended = missed_job_events s @ [missed_event job_info_arg curtime s]
         in s\<lparr>missed_job_events := (if length appended > 10 then tl appended else appended)\<rparr>))"

text \<open>
  The branch of \<^verbatim>\<open>_on_ws_message\<close> for a closed socket (\<^verbatim>\<open>message is None\<close>, the
  component not closing), and the assignment of \<^verbatim>\<open>_do_connect\<close> when the socket is open
  again:
  \<^verbatim>\<open>
  self.connected = False
  self.ws = None
  if self.reconnect_hdl is None:
      self.reconnect_hdl = self.eventloop.delay_callback(self.reconnect_delay, self._do_connect)
  if self.keepalive_hdl is not None:
      self.keepalive_hdl.cancel()
      self.keepalive_hdl = None

  self.ws = await tornado.websocket.websocket_connect(...)
  \<close>
\<close>

definition on_ws_closed :: "sp \<Rightarrow> sp" where
  "on_ws_closed s = s\<lparr>connected := False, ws_open := False, keepalive_hdl := False\<rparr>"

definition ws_connected :: "sp \<Rightarrow> sp" where
  "ws_connected s = s\<lparr>ws_open := True\<rparr>"

section \<open>Inbound frames\<close>

definition temps_json :: "(int \<times> int) dict \<Rightarrow> jval" where
  "temps_json d = JObj (map (\<lambda>(k, (cur, tgt)). (k, JArr [JInt cur, JInt tgt])) d)"

text \<open>
  The replay loop of \<^verbatim>\<open>_push_initial_state\<close>:
  \<^verbatim>\<open>
  for evt in self.missed_job_events:
      evt["delay"] = int((curtime - evt["delay"]) + .5)
      self._send_sp("job_info", evt)
  \<close>
  \<open>seen\<close> holds the events already rewritten in place, the list argument those to come.
  \<open>elapsed_delay curtime d\<close> is \<^verbatim>\<open>int((curtime - d) + .5)\<close>.
\<close>

definition elapsed_delay :: "pyfloat \<Rightarrow> jval \<Rightarrow> py_error + int" where
  "elapsed_delay curtime d =
     (case num_of d of
        None \<Rightarrow> Inl TypeError
      | Some t \<Rightarrow>
          (case num_sub (PFloat curtime) t of
             Inl e \<Rightarrow> Inl e
           | Inr x \<Rightarrow> (case add_half x of Inl e \<Rightarrow> Inl e | Inr f \<Rightarrow> int_of_float f)))"

fun replay_missed ::
    "pyfloat \<Rightarrow> (jval dict) list \<Rightarrow> (jval dict) list \<Rightarrow> sp \<Rightarrow> sp outcome" where
  "replay_missed curtime seen [] s = Returned s"
| "replay_missed curtime seen (evt # rest) s =
     (case map_of evt ''delay'' of
        None \<Rightarrow> Raised KeyError s
      | Some d \<Rightarrow>
          (case elapsed_delay curtime d of
             Inl e \<Rightarrow> Raised e s
           | Inr n \<Rightarrow>
               (let evt' = AList.update ''delay'' (JInt n) evt;
                    s1 = s\<lparr>missed_job_events := seen @ evt' # rest\<rparr>
                in replay_missed curtime (seen @ [evt']) rest
                     (send_sp ''job_info'' (JObj evt') s1))))"

text \<open>
  \<^verbatim>\<open>
  def _push_initial_state(self):
      self._send_sp("state_change", {"new": self.cache.state})
      if self.cache.temps and self.is_set_up:
          self._send_sp("temps", self.cache.temps)
      if self.cache.firmware_info:
          self._send_sp("firmware", {"fw": self.cache.firmware_info, "raw": False})
      curtime = self.eventloop.get_loop_time()
      for evt in self.missed_job_events:
          ...
      if self.cache.active_extruder:
          self._send_sp("tool", {"new": self.cache.active_extruder})
      self.missed_job_events = []
      if self.cache.cpu_info:
          self._send_sp("cpu_info", self.cache.cpu_info)
      self._send_sp("ambient", {"new": self.amb_detect.ambient})
      self.eventloop.create_task(self._send_machine_data())
  \<close>
  \<open>push_initial_head\<close> is the part before the loop, \<open>push_initial_tail\<close> the part
  after it.
\<close>

definition push_initial_head :: "sp \<Rightarrow> sp" where
  "push_initial_head s =
     (let s1 = send_sp ''state_change'' (JObj [(''new'', JStr (state (cache s)))]) s;
          s2 = (if temps (cache s1) \<noteq> [] \<and> is_set_up s1
                then send_sp ''temps'' (temps_json (temps (cache s1))) s1 else s1)
      in if firmware_info (cache s2) \<noteq> []
         then send_sp ''firmware''
                (JObj [(''fw'', JObj (firmware_info (cache s2))), (''raw'', JBool False)]) s2
         else s2)"

definition push_initial_tail :: "sp \<Rightarrow> sp" where
  "push_initial_tail s4 =
     (let s5 = (if active_extruder (cache s4) \<noteq> []
                then send_sp ''tool'' (JObj [(''new'', JStr (active_extruder (cache s4)))]) s4
                else s4);
          s6 = s5\<lparr>missed_job_events := []\<rparr>;
          s7 = (if cpu_info (cache s6) \<noteq> []
                then send_sp ''cpu_info'' (JObj (cpu_info (cache s6))) s6 else s6);
          s8 = send_sp ''ambient'' (JObj [(''new'', JInt (ambient s7))]) s7
      in s8\<lparr>tasks := tasks s8 @ [SendMachineData]\<rparr>)"

definition push_initial_state :: "pyfloat \<Rightarrow> sp \<Rightarrow> sp outcome" where
  "push_initial_state curtime s =
     (let s3 = push_initial_head s
      in case replay_missed curtime [] (missed_job_events s3) s3 of
           Raised e s4 \<Rightarrow> Raised e s4
         | Returned s4 \<Rightarrow> Returned (push_initial_tail s4))"

text \<open>
  \<^verbatim>\<open>
  for key, val in interval.items():
      self.intervals[key] = val / 1000.
  \<close>
  The division raises \<^verbatim>\<open>TypeError\<close> on a value that is not a number and
  \<^verbatim>\<open>OverflowError\<close> on an integer too large for a double.
\<close>

fun intervals_loop :: "jval dict \<Rightarrow> sp \<Rightarrow> sp outcome" where
  "intervals_loop [] s = Returned s"
| "intervals_loop ((key, val) # items) s =
     (case num_of val of
        None \<Rightarrow> Raised TypeError s
      | Some v \<Rightarrow>
          (case div_1000 v of
             Inl e \<Rightarrow> Raised e s
           | Inr f \<Rightarrow> intervals_loop items (s\<lparr>intervals := AList.update key f (intervals s)\<rparr>)))"

text \<open>
  The branch of \<^verbatim>\<open>_process_message\<close> for \<^verbatim>\<open>event == "connected"\<close>:
  \<^verbatim>\<open>
  self.connected = True
  self.reconnect_token = None
  if data is not None:
      interval = data.get("interval")
      if isinstance(interval, dict):
          for key, val in interval.items():
              self.intervals[key] = val / 1000.
      self.reconnect_token = data.get("reconnect_token")
      name = data.get("name")
      if name is not None:
          self._save_item("printer_name", name)
  self.reconnect_delay = 1.
  self._push_initial_state()
  \<close>
  \<^verbatim>\<open>data.get\<close> raises \<^verbatim>\<open>AttributeError\<close> when \<open>data\<close> is not a dictionary.
\<close>

definition connected_data :: "jval \<Rightarrow> sp \<Rightarrow> sp outcome" where
  "connected_data data s =
     (case data of
        JNull \<Rightarrow> Returned s
      | JObj d \<Rightarrow>
          (case (case dict_get d ''interval'' of
                   JObj interval \<Rightarrow> intervals_loop interval s
                 | _ \<Rightarrow> Returned s) of
             Raised e s1 \<Rightarrow> Raised e s1
           | Returned s1 \<Rightarrow>
               (let s2 = s1\<lparr>reconnect_token := dict_get d ''reconnect_token''\<rparr>;
                    name = dict_get d ''name''
                in Returned (if name \<noteq> JNull then save_item ''printer_name'' name s2 else s2)))
      | _ \<Rightarrow> Raised AttributeError s)"

definition connected_frame :: "pyfloat \<Rightarrow> jval \<Rightarrow> sp \<Rightarrow> sp outcome" where
  "connected_frame curtime data s =
     (case connected_data data (s\<lparr>connected := True, reconnect_token := JNull\<rparr>) of
        Raised e s1 \<Rightarrow> Raised e s1
      | Returned s1 \<Rightarrow> push_initial_state curtime (s1\<lparr>reconnect_delay := 1\<rparr>))"

text \<open>
  \<^verbatim>\<open>
  elif event == "error":
      self.reconnect_delay = 30.
      self.reconnect_token = None
  \<close>
\<close>

definition error_frame :: "sp \<Rightarrow> sp" where
  "error_frame s = s\<lparr>reconnect_delay := 30, reconnect_token := JNull\<rparr>"

text \<open>
  \<^verbatim>\<open>
  elif event == "new_token":
      if data is None:
          return
      token = data.get("token")
      if not isinstance(token, str):
          return
      self._save_item("printer_token", token)
      self._set_ws_url()
  \<close>
\<close>

definition new_token_frame :: "jval \<Rightarrow> sp \<Rightarrow> sp outcome" where
  "new_token_frame data s =
     (case data of
        JNull \<Rightarrow> Returned s
      | JObj d \<Rightarrow>
          (let token = dict_get d ''token''
           in if \<not> is_str token then Returned s
              else Returned (set_ws_url (save_item ''printer_token'' token s)))
      | _ \<Rightarrow> Raised AttributeError s)"

text \<open>
  \<^verbatim>\<open>
  elif event == "set_up":
      if data is None:
          return
      printer_id = data.get("id")
      if not isinstance(token, str):
          return
      self._save_item("printer_id", printer_id)
      self._set_ws_url()
      name = data.get("name")
      if not isinstance(name, str):
          return
      self._save_item("printer_name", name)
  \<close>
  \<open>token\<close> is a local variable of \<^verbatim>\<open>_process_message\<close>, assigned only in the branch for
  \<^verbatim>\<open>new_token\<close>. The argument \<open>token\<close> is its binding when the branch runs: \<open>None\<close> for
  an unbound local, which Python answers with \<^verbatim>\<open>UnboundLocalError\<close>.
\<close>

definition set_up_frame :: "jval option \<Rightarrow> jval \<Rightarrow> sp \<Rightarrow> sp outcome" where
  "set_up_frame token data s =
     (case data of
        JNull \<Rightarrow> Returned s
      | JObj d \<Rightarrow>
          (let printer_id = dict_get d ''id''
           in case token of
                None \<Rightarrow> Raised UnboundLocalError s
              | Some tok \<Rightarrow>
                  if \<not> is_str tok then Returned s
                  else
                    (let s1 = set_ws_url (save_item ''printer_id'' printer_id s);
                         name = dict_get d ''name''
                     in if \<not> is_str name then Returned s1
                        else Returned (save_item ''printer_name'' name s1)))
      | _ \<Rightarrow> Raised AttributeError s)"

text \<open>
  \<^verbatim>\<open>"\n".join(script_list)\<close>: the argument is iterated, and every item must be a string.
  A list gives its items, a string its characters, a dictionary its keys.
\<close>

fun join_newline :: "string list \<Rightarrow> string" where
  "join_newline [] = []"
| "join_newline [l] = l"
| "join_newline (l # ls) = l @ CHR 0x0A # join_newline ls"

fun strs_of :: "jval list \<Rightarrow> string list option" where
  "strs_of [] = Some []"
| "strs_of (JStr s # xs) = map_option (\<lambda>ls. s # ls) (strs_of xs)"
| "strs_of (v # xs) = None"

fun join_script :: "jval \<Rightarrow> string option" where
  "join_script (JArr xs) = map_option join_newline (strs_of xs)"
| "join_script (JStr s) = Some (join_newline (map (\<lambda>c. [c]) s))"
| "join_script (JObj d) = Some (join_newline (map fst d))"
| "join_script v = None"

text \<open>
  \<^verbatim>\<open>
  def _process_demand(self, demand, args):
      kconn = self.server.lookup_component("klippy_connection")
      if not kconn.is_connected():
          return
      if demand in ["pause", "resume", "cancel"]:
          self.eventloop.create_task(self._request_print_action(demand))
      elif demand == "terminal":
          if "enabled" in args:
              self.gcode_terminal_enabled = args["enabled"]
      elif demand == "gcode":
          script_list = args.get("list", [])
          if script_list:
              script = "\n".join(script_list)
              coro = self.klippy_apis.run_gcode(script, None)
              self.eventloop.create_task(coro)
      else:
          self._logger.info(f"Unknown demand: {demand}")
  \<close>
  \<open>kconn_connected\<close> is what \<^verbatim>\<open>kconn.is_connected()\<close> answers.
\<close>

definition process_demand :: "bool \<Rightarrow> jval \<Rightarrow> jval dict \<Rightarrow> sp \<Rightarrow> sp outcome" where
  "process_demand kconn_connected demand args s =
     (if \<not> kconn_connected then Returned s
      else if demand = JStr ''pause'' \<or> demand = JStr ''resume'' \<or> demand = JStr ''cancel''
        then Returned (s\<lparr>tasks := tasks s @ [RequestPrintAction demand]\<rparr>)
      else if demand = JStr ''terminal''
        then (case map_of args ''enabled'' of
                None \<Rightarrow> Returned s
              | Some v \<Rightarrow> Returned (s\<lparr>gcode_terminal_enabled := v\<rparr>))
      else if demand = JStr ''gcode''
        then (let script_list = dict_get_default args ''list'' (JArr [])
              in if truthy script_list
                 then (case join_script script_list of
                         None \<Rightarrow> Raised TypeError s
                       | Some script \<Rightarrow> Returned (s\<lparr>tasks := tasks s @ [RunGcode script]\<rparr>))
                 else Returned s)
      else Returned s)"

text \<open>
  \<^verbatim>\<open>
  elif event == "demand":
      if data is None:
          return
      demand = data.pop("demand", "unknown")
      self._process_demand(demand, data)
  elif event == "interval_change":
      if isinstance(data, dict):
          for key, val in data.items():
              self.intervals[key] = val / 1000.
  \<close>
  \<^verbatim>\<open>data.pop\<close> with two arguments raises \<^verbatim>\<open>TypeError\<close> on a list and
  \<^verbatim>\<open>AttributeError\<close> on the other values that are not dictionaries.
\<close>

definition demand_frame :: "bool \<Rightarrow> jval \<Rightarrow> sp \<Rightarrow> sp outcome" where
  "demand_frame kconn_connected data s =
     (case data of
        JNull \<Rightarrow> Returned s
      | JObj d \<Rightarrow>
          process_demand kconn_connected (dict_get_default d ''demand'' (JStr ''unknown''))
            (AList.delete ''demand'' d) s
      | JArr xs \<Rightarrow> Raised TypeError s
      | _ \<Rightarrow> Raised AttributeError s)"

definition interval_change_frame :: "jval \<Rightarrow> sp \<Rightarrow> sp outcome" where
  "interval_change_frame data s =
     (case data of JObj d \<Rightarrow> intervals_loop d s | _ \<Rightarrow> Returned s)"

text \<open>
  \<^verbatim>\<open>
  def _process_message(self, msg):
      self._reset_keepalive()
      try:
          packet = json.loads(msg)
      except json.JSONDecodeError:
          return
      event = packet.get("type", "")
      data = packet.get("data")
      if event == "connected": ...
      elif event == "error": ...
      elif event == "new_token": ...
      elif event == "set_up": ...
      elif event == "demand": ...
      elif event == "interval_change": ...
      else:
          self._logger.info(f"Unknown event: {msg}")
  \<close>
  The message is given by what \<^verbatim>\<open>json.loads\<close> makes of it: \<open>None\<close> when it is not
  JSON. \<open>curtime\<close> is the loop time, \<open>kconn_connected\<close> the answer of the Klippy
  connection. On the path to the branch for \<^verbatim>\<open>set_up\<close> the local \<open>token\<close> is unbound.
\<close>

definition process_message ::
    "pyfloat \<Rightarrow> bool \<Rightarrow> jval option \<Rightarrow> sp \<Rightarrow> sp outcome" where
  "process_message curtime kconn_connected msg s0 =
     (let s = reset_keepalive s0
      in case msg of
           None \<Rightarrow> Returned s
         | Some (JObj packet) \<Rightarrow>
             (let event = dict_get_default packet ''type'' (JStr []);
                  data = dict_get packet ''data''
              in if event = JStr ''connected'' then connected_frame curtime data s
                 else if event = JStr ''error'' then Returned (error_frame s)
                 else if event = JStr ''new_token'' then new_token_frame data s
                 else if event = JStr ''set_up'' then set_up_frame None data s
                 else if event = JStr ''demand'' then demand_frame kconn_connected data s
                 else if event = JStr ''interval_change'' then interval_change_frame data s
                 else Returned s)
         | Some _ \<Rightarrow> Raised AttributeError s)"

text \<open>
  \<^verbatim>\<open>
  async def _request_print_action(self, action):
      cur_state = self.cache.state
      ret = ""
      if action == "pause":
          if cur_state == "printing":
              ret = await self.klippy_apis.pause_print(None)
      elif action == "resume":
          if cur_state == "paused":
              ret = await self.klippy_apis.resume_print(None)
      elif action == "cancel":
          if cur_state in ["printing", "paused"]:
              ret = await self.klippy_apis.cancel_print(None)
      if ret is None:
          # Make sure the event fired so we can reset
          await asyncio.sleep(.05)
          self._update_state(cur_state)
  \<close>
  The coroutine is suspended at each \<^verbatim>\<open>await\<close>, and other handlers of the component may
  run meanwhile. \<open>klippy action s\<close> gives the value that the Klippy API returns for the
  action together with the state of the component when the coroutine goes on;
  \<open>during_sleep\<close> gives the state after the sleep.
\<close>

definition call_klippy ::
    "(string \<Rightarrow> sp \<Rightarrow> string option \<times> sp) \<Rightarrow> string \<Rightarrow> sp \<Rightarrow> string option \<times> sp" where
  "call_klippy klippy action s = klippy action (s\<lparr>klippy_calls := klippy_calls s @ [action]\<rparr>)"

definition request_print_action ::
    "(string \<Rightarrow> sp \<Rightarrow> string option \<times> sp) \<Rightarrow> (sp \<Rightarrow> sp) \<Rightarrow> string \<Rightarrow> sp \<Rightarrow> sp" where
  "request_print_action klippy during_sleep action s =
     (let cur_state = state (cache s);
          (ret, s1) =
            (if action = ''pause'' then
               (if cur_state = ''printing'' then call_klippy klippy action s else (Some [], s))
             else if action = ''resume'' then
               (if cur_state = ''paused'' then call_klippy klippy action s else (Some [], s))
             else if action = ''cancel'' then
               (if cur_state = ''printing'' \<or> cur_state = ''paused''
                then call_klippy klippy action s else (Some [], s))
             else (Some [], s))
      in case ret of
           None \<Rightarrow> update_state cur_state (during_sleep (s1\<lparr>slept := slept s1 @ [5 / 100]\<rparr>))
         | Some r \<Rightarrow> s1)"

section \<open>Job progress\<close>

text \<open>
  \<^verbatim>\<open>a != b\<close> between a Python integer and a cached value of any type: they are equal
  exactly when the cached value is a number (or bool) of the same value.
\<close>

definition py_eq_num :: "int \<Rightarrow> jval \<Rightarrow> bool" where
  "py_eq_num n v = (case num_of v of None \<Rightarrow> False | Some x \<Rightarrow> num_eq (PInt n) x)"

text \<open>
  The first part of \<^verbatim>\<open>_update_job_progress\<close>:
  \<^verbatim>\<open>
  est_time = self.cache.metadata.get("estimated_time")
  if est_time is not None:
      last_stats = self.job_state.get_last_stats()
      duration = last_stats["print_duration"]
      time_left = max(0, int(est_time - duration + .5))
      last_time_left = self.cache.job_info.get("time", time_left + 60.)
      time_diff = last_time_left - time_left
      if (
          (time_left < 60 or time_diff >= 30) and
          time_left != last_time_left
      ):
          job_info["time"] = time_left
  \<close>
  \<open>last_stats\<close> is what the job state component answers. \<open>time_left_of\<close> is the
  value of \<open>time_left\<close>, \<open>time_push\<close> the condition of the \<^verbatim>\<open>if\<close>.
\<close>

definition time_left_of :: "pynum \<Rightarrow> jval dict \<Rightarrow> py_error + int" where
  "time_left_of est_time last_stats =
     (case map_of last_stats ''print_duration'' of
        None \<Rightarrow> Inl KeyError
      | Some dv \<Rightarrow>
          (case num_of dv of
             None \<Rightarrow> Inl TypeError
           | Some duration \<Rightarrow>
               (case num_sub est_time duration of
                  Inl e \<Rightarrow> Inl e
                | Inr d \<Rightarrow>
                    (case add_half d of
                       Inl e \<Rightarrow> Inl e
                     | Inr f \<Rightarrow>
                         (case int_of_float f of Inl e \<Rightarrow> Inl e | Inr n \<Rightarrow> Inr (max 0 n))))))"

definition time_push :: "sp \<Rightarrow> int \<Rightarrow> py_error + bool" where
  "time_push s time_left =
     (case to_float (PInt time_left) of
        Inl e \<Rightarrow> Inl e
      | Inr t \<Rightarrow>
          (case num_of (dict_get_default (job_info (cache s)) ''time''
                          (JFloat (fadd t (Fin 60)))) of
             None \<Rightarrow> Inl TypeError
           | Some last_time_left \<Rightarrow>
               (case num_sub last_time_left (PInt time_left) of
                  Inl e \<Rightarrow> Inl e
                | Inr time_diff \<Rightarrow>
                    Inr ((time_left < 60 \<or> num_le (PInt 30) time_diff) \<and>
                         \<not> num_eq (PInt time_left) last_time_left))))"

definition progress_time :: "jval dict \<Rightarrow> sp \<Rightarrow> jval dict \<Rightarrow> py_error + jval dict" where
  "progress_time last_stats s job_info_new =
     (case estimated_time (metadata (cache s)) of
        None \<Rightarrow> Inr job_info_new
      | Some est_time \<Rightarrow>
          (case time_left_of est_time last_stats of
             Inl e \<Rightarrow> Inl e
           | Inr time_left \<Rightarrow>
               (case time_push s time_left of
                  Inl e \<Rightarrow> Inl e
                | Inr push \<Rightarrow>
                    Inr (if push then AList.update ''time'' (JInt time_left) job_info_new
                         else job_info_new))))"

text \<open>
  \<^verbatim>\<open>
  if "display_status" in self.printer_status:
      progress = self.printer_status["display_status"]["progress"]
      pct_prog = int(progress * 100 + .5)
      if pct_prog != self.cache.job_info.get("progress", 0):
          job_info["progress"] = int(progress * 100 + .5)
  \<close>
  \<open>pct_of progress\<close> is \<^verbatim>\<open>int(progress * 100 + .5)\<close>.
\<close>

definition pct_of :: "jval \<Rightarrow> py_error + int" where
  "pct_of progress =
     (case num_of progress of
        None \<Rightarrow> Inl TypeError
      | Some x \<Rightarrow>
          (case add_half (times_100 x) of Inl e \<Rightarrow> Inl e | Inr f \<Rightarrow> int_of_float f))"

definition progress_pct :: "sp \<Rightarrow> jval dict \<Rightarrow> py_error + jval dict" where
  "progress_pct s job_info_new =
     (case map_of (printer_status s) ''display_status'' of
        None \<Rightarrow> Inr job_info_new
      | Some display_status \<Rightarrow>
          (case map_of display_status ''progress'' of
             None \<Rightarrow> Inl KeyError
           | Some progress \<Rightarrow>
               (case pct_of progress of
                  Inl e \<Rightarrow> Inl e
                | Inr pct_prog \<Rightarrow>
                    if \<not> py_eq_num pct_prog
                           (dict_get_default (job_info (cache s)) ''progress'' (JInt 0))
                    then Inr (AList.update ''progress'' (JInt pct_prog) job_info_new)
                    else Inr job_info_new)))"

text \<open>
  \<^verbatim>\<open>
  layer = self.layer_detect.layer
  if layer != self.cache.job_info.get("layer", -1):
      job_info["layer"] = layer
  \<close>
\<close>

definition progress_layer :: "sp \<Rightarrow> jval dict \<Rightarrow> jval dict" where
  "progress_layer s job_info_new =
     (let layer = l_layer (layer_detect s)
      in if \<not> py_eq_num layer (dict_get_default (job_info (cache s)) ''layer'' (JInt (- 1)))
         then AList.update ''layer'' (JInt layer) job_info_new
         else job_info_new)"

text \<open>The dictionary \<open>job_info\<close> that \<^verbatim>\<open>_update_job_progress\<close> builds, or the exception.\<close>

definition progress_payload :: "jval dict \<Rightarrow> sp \<Rightarrow> py_error + jval dict" where
  "progress_payload last_stats s =
     (case progress_time last_stats s [] of
        Inl e \<Rightarrow> Inl e
      | Inr j1 \<Rightarrow>
          (case progress_pct s j1 of
             Inl e \<Rightarrow> Inl e
           | Inr j2 \<Rightarrow> Inr (progress_layer s j2)))"

text \<open>
  \<^verbatim>\<open>
  if job_info:
      self.cache.job_info.update(job_info)
      self._send_sp("job_info", job_info)
  \<close>
\<close>

definition update_job_progress :: "jval dict \<Rightarrow> sp \<Rightarrow> sp outcome" where
  "update_job_progress last_stats s =
     (case progress_payload last_stats s of
        Inl e \<Rightarrow> Raised e s
      | Inr job_info_new \<Rightarrow>
          if job_info_new \<noteq> [] then
            Returned (send_sp ''job_info'' (JObj job_info_new)
              (s\<lparr>cache := (cache s)\<lparr>job_info := dict_update (job_info (cache s)) job_info_new\<rparr>\<rparr>))
          else Returned s)"

text \<open>
  \<^verbatim>\<open>
  def _handle_printer_info_update(self, eventtime):
      if self.cache.state == "printing":
          self._update_job_progress()
      return eventtime + self.intervals["job"]
  \<close>
  The result is the time of the next tick and the state.
\<close>

definition handle_printer_info_update ::
    "jval dict \<Rightarrow> pyfloat \<Rightarrow> sp \<Rightarrow> (pyfloat \<times> sp) outcome" where
  "handle_printer_info_update last_stats eventtime s =
     (case (if state (cache s) = ''printing'' then update_job_progress last_stats s
            else Returned s) of
        Raised e s1 \<Rightarrow> Raised e (eventtime, s1)
      | Returned s1 \<Rightarrow>
          (case map_of (intervals s1) ''job'' of
             None \<Rightarrow> Raised KeyError (eventtime, s1)
           | Some job \<Rightarrow> Returned (fadd (fnorm eventtime) (fnorm job), s1)))"

section \<open>Temperatures\<close>

text \<open>\<^verbatim>\<open>self.printer_status[printer_obj][field]\<close>: a missing key raises \<^verbatim>\<open>KeyError\<close>.\<close>

definition heater_reading :: "sp \<Rightarrow> string \<Rightarrow> string \<Rightarrow> py_error + jval" where
  "heater_reading s printer_obj field =
     (case map_of (printer_status s) printer_obj of
        None \<Rightarrow> Inl KeyError
      | Some obj \<Rightarrow> (case map_of obj field of None \<Rightarrow> Inl KeyError | Some v \<Rightarrow> Inr v))"

text \<open>
  The body of the loop of \<^verbatim>\<open>_update_temps\<close>, for one item of \<^verbatim>\<open>self.heaters\<close>:
  \<^verbatim>\<open>
  reported_temp = self.printer_status[printer_obj]["temperature"]
  ret = [
      int(reported_temp + .5),
      int(self.printer_status[printer_obj]["target"] + .5)
  ]
  last_temps = self.cache.temps.get(key, [-100., -100.])
  if ret[1] == last_temps[1]:
      if ret[1]:
          seeking_target = abs(ret[1] - ret[0]) > 5
      else:
          seeking_target = ret[0] >= self.amb_detect.ambient + 25
      need_rapid_update |= seeking_target
      # The target hasn't changed and not heating, debounce temp
      if key in self.last_received_temps and not seeking_target:
          last_reported = self.last_received_temps[key]
          if abs(reported_temp - last_reported) < .75:
              self.last_received_temps.pop(key)
              continue
      if ret[0] == last_temps[0]:
          self.last_received_temps[key] = reported_temp
          continue
      temp_data[key] = ret[:1]
  else:
      # target has changed, send full data
      temp_data[key] = ret
  self.last_received_temps[key] = reported_temp
  self.cache.temps[key] = ret
  \<close>
  The locals \<open>need_rapid_update\<close> and \<open>temp_data\<close> travel with the state.
  \<open>abs_diff x y\<close> is \<^verbatim>\<open>abs(x - y)\<close>, and \<open>debounced\<close> is the test that leads to
  \<^verbatim>\<open>self.last_received_temps.pop(key)\<close>.
\<close>

type_synonym temps_locals = "bool \<times> (int list) dict"

definition abs_diff :: "jval \<Rightarrow> jval \<Rightarrow> py_error + pynum" where
  "abs_diff x y =
     (case num_of x of
        None \<Rightarrow> Inl TypeError
      | Some a \<Rightarrow>
          (case num_of y of
             None \<Rightarrow> Inl TypeError
           | Some b \<Rightarrow> (case num_sub a b of Inl e \<Rightarrow> Inl e | Inr d \<Rightarrow> Inr (num_abs d))))"

definition debounced :: "sp \<Rightarrow> string \<Rightarrow> jval \<Rightarrow> bool \<Rightarrow> py_error + bool" where
  "debounced s key reported_temp seeking_target =
     (case map_of (last_received_temps s) key of
        None \<Rightarrow> Inr False
      | Some last_reported \<Rightarrow>
          if seeking_target then Inr False
          else
            (case abs_diff reported_temp last_reported of
               Inl e \<Rightarrow> Inl e
             | Inr d \<Rightarrow> Inr (num_lt d (PFloat (Fin (75 / 100))))))"

definition seeking :: "sp \<Rightarrow> int \<Rightarrow> int \<Rightarrow> bool" where
  "seeking s ret0 ret1 = (if ret1 \<noteq> 0 then \<bar>ret1 - ret0\<bar> > 5 else ret0 \<ge> ambient s + 25)"

definition update_temps_heater ::
    "string \<Rightarrow> string \<Rightarrow> temps_locals \<times> sp \<Rightarrow> (temps_locals \<times> sp) outcome" where
  "update_temps_heater printer_obj key ls =
     (let ((need_rapid_update, temp_data), s) = ls
      in case heater_reading s printer_obj ''temperature'' of
           Inl e \<Rightarrow> Raised e ls
         | Inr reported_temp \<Rightarrow>
        (case round_half reported_temp of
           Inl e \<Rightarrow> Raised e ls
         | Inr ret0 \<Rightarrow>
        (case heater_reading s printer_obj ''target'' of
           Inl e \<Rightarrow> Raised e ls
         | Inr target \<Rightarrow>
        (case round_half target of
           Inl e \<Rightarrow> Raised e ls
         | Inr ret1 \<Rightarrow>
             (let last_temps = dict_get_default (temps (cache s)) key (- 100, - 100)
              in if ret1 = snd last_temps then
                   (let seeking_target = seeking s ret0 ret1;
                        need = (need_rapid_update \<or> seeking_target)
                    in case debounced s key reported_temp seeking_target of
                         Inl e \<Rightarrow> Raised e ((need, temp_data), s)
                       | Inr skip \<Rightarrow>
                           if skip then
                             Returned ((need, temp_data),
                               s\<lparr>last_received_temps := AList.delete key (last_received_temps s)\<rparr>)
                           else if ret0 = fst last_temps then
                             Returned ((need, temp_data),
                               s\<lparr>last_received_temps :=
                                   AList.update key reported_temp (last_received_temps s)\<rparr>)
                           else
                             Returned ((need, AList.update key [ret0] temp_data),
                               s\<lparr>last_received_temps :=
                                   AList.update key reported_temp (last_received_temps s),
                                 cache := (cache s)\<lparr>temps :=
                                   AList.update key (ret0, ret1) (temps (cache s))\<rparr>\<rparr>))
                 else
                   Returned ((need_rapid_update, AList.update key [ret0, ret1] temp_data),
                     s\<lparr>last_received_temps :=
                         AList.update key reported_temp (last_received_temps s),
                       cache := (cache s)\<lparr>temps :=
                         AList.update key (ret0, ret1) (temps (cache s))\<rparr>\<rparr>))))))"

text \<open>\<^verbatim>\<open>for printer_obj, key in self.heaters.items(): ...\<close>; an exception ends the loop.\<close>

fun temps_loop :: "string dict \<Rightarrow> temps_locals \<times> sp \<Rightarrow> (temps_locals \<times> sp) outcome" where
  "temps_loop [] ls = Returned ls"
| "temps_loop ((printer_obj, key) # hs) ls =
     (case update_temps_heater printer_obj key ls of
        Raised e ls1 \<Rightarrow> Raised e ls1
      | Returned ls1 \<Rightarrow> temps_loop hs ls1)"

text \<open>
  \<^verbatim>\<open>
  def _update_temps(self, eventtime):
      if eventtime < self.next_temp_update_time:
          return
      need_rapid_update = False
      temp_data = {}
      for printer_obj, key in self.heaters.items():
          ...
      if need_rapid_update:
          self.next_temp_update_time = (
              0. if self.intervals["temps_target"] < .2501 else
              eventtime + self.intervals["temps_target"]
          )
      else:
          self.next_temp_update_time = eventtime + self.intervals["temps"]
      if not temp_data:
          return
      if self.is_set_up:
          self._send_sp("temps", temp_data)
  \<close>
\<close>

definition temp_data_json :: "(int list) dict \<Rightarrow> jval" where
  "temp_data_json d = JObj (map (\<lambda>(k, vs). (k, JArr (map JInt vs))) d)"

definition next_temp_time :: "bool \<Rightarrow> pyfloat \<Rightarrow> sp \<Rightarrow> py_error + pyfloat" where
  "next_temp_time need_rapid_update eventtime s =
     (if need_rapid_update then
        (case map_of (intervals s) ''temps_target'' of
           None \<Rightarrow> Inl KeyError
         | Some tt \<Rightarrow>
             Inr (if flt (fnorm tt) (fnorm (Fin (2501 / 10000))) then Fin 0
                  else fadd (fnorm eventtime) (fnorm tt)))
      else
        (case map_of (intervals s) ''temps'' of
           None \<Rightarrow> Inl KeyError
         | Some t \<Rightarrow> Inr (fadd (fnorm eventtime) (fnorm t))))"

definition update_temps :: "pyfloat \<Rightarrow> sp \<Rightarrow> sp outcome" where
  "update_temps eventtime s =
     (if flt (fnorm eventtime) (fnorm (next_temp_update_time s)) then Returned s
      else
        (case temps_loop (heaters s) ((False, []), s) of
           Raised e (locals, s1) \<Rightarrow> Raised e s1
         | Returned ((need_rapid_update, temp_data), s1) \<Rightarrow>
             (case next_temp_time need_rapid_update eventtime s1 of
                Inl e \<Rightarrow> Raised e s1
              | Inr nxt \<Rightarrow>
                  (let s2 = s1\<lparr>next_temp_update_time := nxt\<rparr>
                   in if temp_data = [] then Returned s2
                      else if is_set_up s2
                        then Returned (send_sp ''temps'' (temp_data_json temp_data) s2)
                      else Returned s2))))"

section \<open>The heater map\<close>

text \<open>
  The loop of \<^verbatim>\<open>_on_klippy_ready\<close> that fills \<^verbatim>\<open>self.heaters\<close> from the sorted list of
  the available heaters:
  \<^verbatim>\<open>
  for htr in avail_htrs:
      if htr.startswith("extruder"):
          sub_objs[htr] = ["temperature", "target"]
          if htr == "extruder":
              tool_id = "tool0"
          else:
              tool_id = "tool" + htr[8:]
          self.heaters[htr] = tool_id
      elif htr == "heater_bed":
          sub_objs[htr] = ["temperature", "target"]
          self.heaters[htr] = "bed"
  \<close>
\<close>

definition tool_id_of :: "string \<Rightarrow> string option" where
  "tool_id_of htr =
     (if take 8 htr = ''extruder'' then
        (if htr = ''extruder'' then Some ''tool0'' else Some (''tool'' @ drop 8 htr))
      else if htr = ''heater_bed'' then Some ''bed''
      else None)"

fun register_heaters :: "string list \<Rightarrow> string dict \<Rightarrow> string dict" where
  "register_heaters [] hs = hs"
| "register_heaters (htr # rest) hs =
     register_heaters rest
       (case tool_id_of htr of None \<Rightarrow> hs | Some tool_id \<Rightarrow> AList.update htr tool_id hs)"

section \<open>Requests announced by the Klippy API\<close>

text \<open>
  \<^verbatim>\<open>
  def _on_pause_requested(self):
      if self.cache.state == "printing":
          self._update_state("pausing")

  def _on_resume_requested(self):
      if self.cache.state == "paused":
          self._update_state("resuming")

  def _on_cancel_requested(self):
      if self.cache.state in ["printing", "paused", "pausing"]:
          self._update_state("cancelling")
  \<close>
\<close>

definition on_pause_requested :: "sp \<Rightarrow> sp" where
  "on_pause_requested s =
     (if state (cache s) = ''printing'' then update_state ''pausing'' s else s)"

definition on_resume_requested :: "sp \<Rightarrow> sp" where
  "on_resume_requested s =
     (if state (cache s) = ''paused'' then update_state ''resuming'' s else s)"

definition on_cancel_requested :: "sp \<Rightarrow> sp" where
  "on_cancel_requested s =
     (if state (cache s) = ''printing'' \<or> state (cache s) = ''paused'' \<or>
         state (cache s) = ''pausing''
      then update_state ''cancelling'' s else s)"

text \<open>
  Two instances of the parameter \<open>klippy\<close> of \<open>request_print_action\<close>, for the examples.
  With the first the request is announced (the handler above runs while the coroutine
  waits) and then fails, so that the API returns the default \<^verbatim>\<open>None\<close>; with the second
  the API returns at once with \<^verbatim>\<open>"ok"\<close>.
\<close>

definition klippy_request_fails :: "string \<Rightarrow> sp \<Rightarrow> string option \<times> sp" where
  "klippy_request_fails action s =
     (None, if action = ''pause'' then on_pause_requested s
            else if action = ''resume'' then on_resume_requested s
            else on_cancel_requested s)"

definition klippy_request_ok :: "string \<Rightarrow> sp \<Rightarrow> string option \<times> sp" where
  "klippy_request_ok action s = (Some ''ok'', s)"

section \<open>Predicates of the statements\<close>

text \<open>The cached state permits a print action.\<close>

definition state_permits :: "string \<Rightarrow> string \<Rightarrow> bool" where
  "state_permits action cur_state =
     ((action = ''pause'' \<and> cur_state = ''printing'') \<or>
      (action = ''resume'' \<and> cur_state = ''paused'') \<or>
      (action = ''cancel'' \<and> (cur_state = ''printing'' \<or> cur_state = ''paused'')))"


text \<open>
  The handler of a \<^verbatim>\<open>connected\<close> frame gets as far as \<^verbatim>\<open>self.reconnect_delay = 1.\<close>
  exactly on this data: \<open>None\<close>, or a dictionary whose \<^verbatim>\<open>interval\<close> entry, when it is
  a dictionary itself, holds only numbers that \<^verbatim>\<open>val / 1000.\<close> accepts.
\<close>

definition interval_value_ok :: "jval \<Rightarrow> bool" where
  "interval_value_ok v =
     (case num_of v of
        None \<Rightarrow> False
      | Some x \<Rightarrow> (case div_1000 x of Inl e \<Rightarrow> False | Inr f \<Rightarrow> True))"

definition connected_data_typed :: "jval \<Rightarrow> bool" where
  "connected_data_typed data =
     (case data of
        JNull \<Rightarrow> True
      | JObj d \<Rightarrow>
          (case dict_get d ''interval'' of
             JObj interval \<Rightarrow> list_all (\<lambda>kv. interval_value_ok (snd kv)) interval
           | _ \<Rightarrow> True)
      | _ \<Rightarrow> False)"

text \<open>
  The value of a field of the job information that was last pushed: the one in the
  latest \<^verbatim>\<open>job_info\<close> frame, among those written to the socket, that carries the field.
\<close>

fun last_pushed :: "string \<Rightarrow> frame list \<Rightarrow> jval option" where
  "last_pushed field [] = None"
| "last_pushed field ((evt_name, data) # frames) =
     (case last_pushed field frames of
        Some v \<Rightarrow> Some v
      | None \<Rightarrow>
          (if evt_name = ''job_info''
           then (case data of JObj d \<Rightarrow> map_of d field | _ \<Rightarrow> None)
           else None))"

text \<open>
  A heater is debounce-suppressed by the loop body run in state \<open>s\<close>: both readings round
  to integers, the rounded target equals the cached target, the heater is not seeking, it
  has a last received reading, and \<^verbatim>\<open>abs(reported_temp - last_reported) < .75\<close> holds as
  Python computes it. This is the path of the loop body that ends in
  \<^verbatim>\<open>self.last_received_temps.pop(key)\<close>.
\<close>

definition debounce_case :: "sp \<Rightarrow> string \<Rightarrow> string \<Rightarrow> bool" where
  "debounce_case s printer_obj key =
     (case heater_reading s printer_obj ''temperature'' of
        Inl e \<Rightarrow> False
      | Inr reported_temp \<Rightarrow>
     (case round_half reported_temp of
        Inl e \<Rightarrow> False
      | Inr ret0 \<Rightarrow>
     (case heater_reading s printer_obj ''target'' of
        Inl e \<Rightarrow> False
      | Inr target \<Rightarrow>
     (case round_half target of
        Inl e \<Rightarrow> False
      | Inr ret1 \<Rightarrow>
          ret1 = snd (dict_get_default (temps (cache s)) key (- 100, - 100)) \<and>
          \<not> seeking s ret0 ret1 \<and>
          debounced s key reported_temp False = Inr True))))"

text \<open>
  The heater \<open>printer_obj\<close> is tracked under the report key \<open>key\<close>, and no other tracked
  heater has this report key.
\<close>

definition sole_report_key :: "string dict \<Rightarrow> string \<Rightarrow> string \<Rightarrow> bool" where
  "sole_report_key hs printer_obj key = (filter (\<lambda>h. snd h = key) hs = [(printer_obj, key)])"

text \<open>
  The evaluation at \<open>eventtime\<close> in state \<open>s\<close> gets to the heater \<open>printer_obj\<close>: it is
  not held back by the next eligible time, and the loop body raises nothing for the
  heaters before this one.
\<close>

definition evaluates :: "pyfloat \<Rightarrow> sp \<Rightarrow> string \<Rightarrow> bool" where
  "evaluates eventtime s printer_obj =
     (\<not> flt (fnorm eventtime) (fnorm (next_temp_update_time s)) \<and>
      (case temps_loop (takeWhile (\<lambda>h. fst h \<noteq> printer_obj) (heaters s)) ((False, []), s) of
         Returned l \<Rightarrow> True
       | Raised e l \<Rightarrow> False))"

text \<open>
  The rounded readings of a heater, and what the loop body leaves in the cache for a
  heater without a last received reading: the integer comparison with the cached pair.
\<close>

definition compared_entry :: "sp \<Rightarrow> string \<Rightarrow> int \<Rightarrow> int \<Rightarrow> (int \<times> int) option" where
  "compared_entry s key ret0 ret1 =
     (if ret1 = snd (dict_get_default (temps (cache s)) key (- 100, - 100)) \<and>
         ret0 = fst (dict_get_default (temps (cache s)) key (- 100, - 100))
      then map_of (temps (cache s)) key
      else Some (ret0, ret1))"

text \<open>
  A heater map as the loop of \<^verbatim>\<open>_on_klippy_ready\<close> builds it from heater names other
  than \<open>''extruder0''\<close>.
\<close>

definition heaters_ok :: "string dict \<Rightarrow> bool" where
  "heaters_ok hs =
     (distinct (map fst hs) \<and>
      (\<forall>p \<in> set hs. tool_id_of (fst p) = Some (snd p) \<and> fst p \<noteq> ''extruder0''))"

section \<open>States of the examples\<close>

text \<open>
  The inputs at which the statements are instantiated. \<open>example_session\<close> is the
  component right after construction with a test configuration and an empty database,
  connected with a live socket; the others differ from the constructed component as
  written.
\<close>

definition example_config :: config where
  "example_config = \<lparr>cfg_sp_test = True, cfg_url = None, cfg_db = []\<rparr>"

definition example_session :: sp where
  "example_session = (SimplyPrint_init example_config)\<lparr>ws_open := True, connected := True\<rparr>"

definition example_printing :: sp where
  "example_printing =
     (SimplyPrint_init example_config)
       \<lparr>ws_open := True, cache := ReportCache_init\<lparr>state := ''printing''\<rparr>,
        connected := True\<rparr>"

text \<open>A disconnected component with ten queued events, the oldest first.\<close>

definition example_full_queue :: sp where
  "example_full_queue =
     (SimplyPrint_init example_config)
       \<lparr>missed_job_events :=
          [[(''delay'', JFloat (Fin 1))], [(''delay'', JFloat (Fin 2))],
           [(''delay'', JFloat (Fin 3))], [(''delay'', JFloat (Fin 4))],
           [(''delay'', JFloat (Fin 5))], [(''delay'', JFloat (Fin 6))],
           [(''delay'', JFloat (Fin 7))], [(''delay'', JFloat (Fin 8))],
           [(''delay'', JFloat (Fin 9))], [(''delay'', JFloat (Fin 10))]]\<rparr>"

text \<open>
  The component after an \<^verbatim>\<open>error\<close> frame: the reconnect delay is 30. The frame of
  \<open>example_bad_interval\<close> is
  \<^verbatim>\<open>{"type": "connected", "data": {"interval": {"job": "fast"}}}\<close>, and
  \<open>example_huge\<close> is an integer too large for a double.
\<close>

definition example_after_error :: sp where
  "example_after_error = error_frame (reset_keepalive (SimplyPrint_init example_config))"

definition example_huge :: int where
  "example_huge = 2 ^ 1024"

definition example_bad_interval :: "jval dict" where
  "example_bad_interval =
     [(''type'', JStr ''connected''),
      (''data'', JObj [(''interval'', JObj [(''job'', JStr ''fast'')])])]"

text \<open>
  A print with an estimated time of 1234.56 s; the cached values are 1300 s left, 1
  percent and layer 2, the detector is at layer 3 and the display reports a progress of
  0.015. The job state answers a print duration of 0.06 s.
\<close>

definition example_job :: sp where
  "example_job =
     (SimplyPrint_init example_config)
       \<lparr>ws_open := True,
        cache := ReportCache_init\<lparr>state := ''printing'',
          metadata := empty_metadata\<lparr>estimated_time := Some (PFloat (Fin (123456 / 100)))\<rparr>,
          job_info := [(''time'', JInt 1300), (''progress'', JInt 1), (''layer'', JInt 2)]\<rparr>,
        layer_detect := LayerDetect_init\<lparr>l_layer := 3\<rparr>,
        printer_status := [(''display_status'', [(''progress'', JFloat (Fin (15 / 1000)))])],
        connected := True\<rparr>"

definition example_stats :: "jval dict" where
  "example_stats = [(''print_duration'', JFloat (Fin (6 / 100)))]"

text \<open>
  A print whose layer is pushed, then changes while the socket is closed, and is back at
  the pushed value after the session is connected again: the detector is at layer 2 on a
  connected session (\<open>example_layer_start\<close>) and the tick pushes it
  (\<open>example_layer_pushed\<close>); the socket closes, the detector moves to layer 3 and the
  next tick caches it without a frame (\<open>example_layer_offline\<close>); the socket is open
  again, a \<^verbatim>\<open>connected\<close> frame arrives, and the detector is back at layer 2
  (\<open>example_layer_back\<close>).
\<close>

definition example_layer_start :: sp where
  "example_layer_start = example_printing\<lparr>layer_detect := LayerDetect_init\<lparr>l_layer := 2\<rparr>\<rparr>"

definition example_layer_pushed :: sp where
  "example_layer_pushed = outcome_state (update_job_progress [] example_layer_start)"

definition example_layer_offline :: sp where
  "example_layer_offline =
     outcome_state (update_job_progress []
       ((on_ws_closed example_layer_pushed)\<lparr>layer_detect := LayerDetect_init\<lparr>l_layer := 3\<rparr>\<rparr>))"

definition example_layer_back :: sp where
  "example_layer_back =
     (outcome_state (process_message (Fin 20) True (Some (JObj [(''type'', JStr ''connected'')]))
        (ws_connected example_layer_offline)))
       \<lparr>layer_detect := LayerDetect_init\<lparr>l_layer := 2\<rparr>\<rparr>"

text \<open>
  Two heaters at their targets. The extruder reads 200.3 after 199.8 (a drift of 0.5), the
  bed reads 60.2 after 59.4 (a drift of 0.8) with 59 cached. \<open>example_next_status\<close> is
  the status of the following poll.
\<close>

definition example_heaters :: sp where
  "example_heaters =
     (SimplyPrint_init example_config)
       \<lparr>ws_open := True,
        cache := ReportCache_init\<lparr>state := ''operational'',
          temps := [(''tool0'', (200, 200)), (''bed'', (59, 60))]\<rparr>,
        ambient := 25,
        last_received_temps :=
          [(''tool0'', JFloat (Fin (1998 / 10))), (''bed'', JFloat (Fin (594 / 10)))],
        printer_status :=
          [(''extruder'', [(''temperature'', JFloat (Fin (2003 / 10))),
                           (''target'', JFloat (Fin 200))]),
           (''heater_bed'', [(''temperature'', JFloat (Fin (602 / 10))),
                             (''target'', JFloat (Fin 60))])],
        heaters := [(''extruder'', ''tool0''), (''heater_bed'', ''bed'')],
        connected := True, is_set_up := True\<rparr>"

definition example_next_status :: "(jval dict) dict" where
  "example_next_status =
     [(''extruder'', [(''temperature'', JFloat (Fin (2004 / 10))),
                      (''target'', JFloat (Fin 200))]),
      (''heater_bed'', [(''temperature'', JFloat (Fin (603 / 10))),
                        (''target'', JFloat (Fin 60))])]"

text \<open>
  The heaters \<open>extruder\<close> and \<open>extruder0\<close>, which the loop of \<^verbatim>\<open>_on_klippy_ready\<close>
  both gives the report key \<open>tool0\<close>. Both are at the target 200; the first reads 200.25
  after a last received 200.0, the second reads 200.5.
\<close>

definition example_shared_key :: sp where
  "example_shared_key =
     (SimplyPrint_init example_config)
       \<lparr>ws_open := True,
        cache := ReportCache_init\<lparr>state := ''operational'',
          temps := [(''tool0'', (200, 200))]\<rparr>,
        ambient := 25,
        last_received_temps := [(''tool0'', JFloat (Fin 200))],
        printer_status :=
          [(''extruder'', [(''temperature'', JFloat (Fin (80100 / 400))),
                           (''target'', JFloat (Fin 200))]),
           (''extruder0'', [(''temperature'', JFloat (Fin (4010 / 20))),
                            (''target'', JFloat (Fin 200))])],
        heaters := register_heaters [''extruder'', ''extruder0''] [],
        connected := True, is_set_up := True\<rparr>"

section \<open>Properties of the diff helper\<close>

lemma update_fresh_key:
  "k \<notin> fst ` set al \<Longrightarrow> AList.update k v al = al @ [(k, v)]"
  by (induction al) auto

lemma diff_loop_filter:
  "distinct (map fst items) \<Longrightarrow> fst ` set items \<inter> fst ` set acc = {} \<Longrightarrow>
   diff_loop items cached acc = acc @ filter (\<lambda>(k, v). map_of cached k \<noteq> Some v) items"
proof (induction items arbitrary: acc)
  case Nil
  then show ?case by simp
next
  case (Cons p items)
  obtain k v where p: "p = (k, v)" by (cases p)
  from Cons.prems p have fresh: "k \<notin> fst ` set acc" and dist: "distinct (map fst items)"
    and notin: "k \<notin> fst ` set items" and disj: "fst ` set items \<inter> fst ` set acc = {}"
    by auto
  show ?case
  proof (cases "map_of cached k = Some v")
    case True
    with Cons.IH [OF dist disj] p show ?thesis by simp
  next
    case False
    from notin disj have "fst ` set items \<inter> fst ` set (acc @ [(k, v)]) = {}"
      by auto
    from Cons.IH [OF dist this] False p fresh show ?thesis
      by (simp add: update_fresh_key)
  qed
qed

lemma filter_all_cached:
  "distinct (map fst new) \<Longrightarrow> map_of new = map_of cached \<Longrightarrow>
   filter (\<lambda>(k, v). map_of cached k \<noteq> Some v) new = []"
proof -
  assume d: "distinct (map fst new)" and e: "map_of new = map_of cached"
  have "\<forall>p \<in> set new. map_of cached (fst p) = Some (snd p)"
    using d e by (metis map_of_eq_Some_iff prod.collapse)
  then show ?thesis
    by (auto simp: filter_empty_conv)
qed

lemma map_of_filter_diff:
  "distinct (map fst new) \<Longrightarrow>
   map_of (filter (\<lambda>(k, v). map_of cached k \<noteq> Some v) new) k =
     (case map_of new k of None \<Rightarrow> None
      | Some v \<Rightarrow> if map_of cached k = Some v then None else Some v)"
proof (induction new)
  case Nil
  then show ?case by simp
next
  case (Cons p new)
  obtain a b where p: "p = (a, b)" by (cases p)
  from Cons.prems p have notin: "a \<notin> fst ` set new" and dist: "distinct (map fst new)"
    by auto
  from notin have none: "map_of new a = None"
    by (simp add: map_of_eq_None_iff)
  have none': "map_of (filter (\<lambda>(k, v). map_of cached k \<noteq> Some v) new) a = None"
    using notin by (auto simp: map_of_eq_None_iff)
  show ?case
    using Cons.IH [OF dist] p none none' by (auto split: option.splits)
qed

text \<open>
  Claim C1. For dictionaries \<open>new\<close> and \<open>cached\<close> (one entry per key),
  \<open>get_object_diff new cached\<close> is \<open>new\<close> itself when \<open>cached\<close> is empty, is empty
  when both dictionaries are equal as maps, and otherwise consists of exactly the entries
  of \<open>new\<close> whose value differs from, or whose key is absent in, \<open>cached\<close> (in the order
  of \<open>new\<close>); a key that \<open>new\<close> does not hold is never reported, whatever \<open>cached\<close>
  holds for it.
\<close>

theorem get_object_diff_spec:
  "distinct (map fst new) \<Longrightarrow>
     get_object_diff new [] = new \<and>
     (map_of new = map_of cached \<longrightarrow> get_object_diff new cached = []) \<and>
     (cached \<noteq> [] \<longrightarrow>
        get_object_diff new cached = filter (\<lambda>(k, v). map_of cached k \<noteq> Some v) new) \<and>
     (\<forall>k. map_of (get_object_diff new cached) k =
        (case map_of new k of None \<Rightarrow> None
         | Some v \<Rightarrow> if map_of cached k = Some v then None else Some v)) \<and>
     (\<forall>k. map_of new k = None \<longrightarrow> map_of (get_object_diff new cached) k = None)"
proof -
  assume d: "distinct (map fst new)"
  have loop: "diff_loop new cached [] = filter (\<lambda>(k, v). map_of cached k \<noteq> Some v) new"
    using diff_loop_filter [OF d, of "[]" cached] by simp
  have c1: "get_object_diff new [] = new"
    by (simp add: get_object_diff_def)
  have c2: "map_of new = map_of cached \<longrightarrow> get_object_diff new cached = []"
  proof
    assume e: "map_of new = map_of cached"
    show "get_object_diff new cached = []"
    proof (cases "cached = []")
      case True
      with e have "map_of new = Map.empty" by simp
      then have "new = []" by simp
      with True show ?thesis by (simp add: get_object_diff_def)
    next
      case False
      then show ?thesis
        using loop filter_all_cached [OF d e] by (simp add: get_object_diff_def)
    qed
  qed
  have c3: "cached \<noteq> [] \<longrightarrow>
        get_object_diff new cached = filter (\<lambda>(k, v). map_of cached k \<noteq> Some v) new"
    using loop by (simp add: get_object_diff_def)
  have c4: "map_of (get_object_diff new cached) k =
        (case map_of new k of None \<Rightarrow> None
         | Some v \<Rightarrow> if map_of cached k = Some v then None else Some v)" for k
  proof (cases "cached = []")
    case True
    then show ?thesis by (simp add: get_object_diff_def split: option.splits)
  next
    case False
    then show ?thesis
      using loop map_of_filter_diff [OF d, of cached k] by (simp add: get_object_diff_def)
  qed
  have c5: "map_of new k = None \<longrightarrow> map_of (get_object_diff new cached) k = None" for k
    using c4 [of k] by simp
  from c1 c2 c3 c4 c5 show ?thesis by blast
qed

theorem get_object_diff_spec_witness:
  "distinct (map fst [(''usage'', 12 :: int), (''temp'', 41), (''memory'', 30)]) \<and>
   get_object_diff [(''usage'', 12 :: int), (''temp'', 41), (''memory'', 30)] [] =
     [(''usage'', 12), (''temp'', 41), (''memory'', 30)] \<and>
   get_object_diff [(''usage'', 12 :: int), (''temp'', 41), (''memory'', 30)]
     [(''usage'', 12), (''temp'', 40), (''load'', 3)] = [(''temp'', 41), (''memory'', 30)] \<and>
   map_of (get_object_diff [(''usage'', 12 :: int), (''temp'', 41), (''memory'', 30)]
     [(''usage'', 12), (''temp'', 40), (''load'', 3)]) ''load'' = None"
  using get_object_diff_spec [of "[(''usage'', 12 :: int), (''temp'', 41), (''memory'', 30)]"
      "[(''usage'', 12), (''temp'', 40), (''load'', 3)]"]
  by simp

section \<open>Properties of LayerDetect\<close>

text \<open>
  Claim C2, as the specification states it, does not hold: with layer height 0.2 and
  first-layer height 0.2, after the Z values 0, 0.2, 0.2, 0.4 the layer index is 1 and
  not 2. \<^verbatim>\<open>_layer_z\<close> is written only when the detector acts, so the second 0.2 still
  differs from it: that update is the second consecutive change and is the one acted on.
\<close>

theorem layer_detect_z_sequence_counterexample:
  "l_layer (outcome_state (LayerDetect_updates
      (outcome_state (LayerDetect_start LayerDetect_init
         (empty_metadata\<lparr>layer_height := Some (2 / 10), first_layer_height := Some (2 / 10)\<rparr>)))
      [[0, 0, 0, 0], [0, 0, 2 / 10, 0], [0, 0, 2 / 10, 0], [0, 0, 4 / 10, 0]])) = 1 \<and>
   l_layer (outcome_state (LayerDetect_updates
      (outcome_state (LayerDetect_start LayerDetect_init
         (empty_metadata\<lparr>layer_height := Some (2 / 10), first_layer_height := Some (2 / 10)\<rparr>)))
      [[0, 0, 0, 0], [0, 0, 2 / 10, 0], [0, 0, 2 / 10, 0], [0, 0, 4 / 10, 0]])) \<noteq> 2"
  by (simp add: LayerDetect_start_def LayerDetect_init_def LayerDetect_reset_def
      empty_metadata_def LayerDetect_update_def py_int_def)

text \<open>
  Claim C2, amended. Started with layer height 0.2 and first-layer height 0.2, the detector
  is active at layer 0 with last acted-on Z 0. Of the updates with Z = 0, 0.2, 0.2, 0.4 the
  first changes nothing; the first 0.2 is checked but not acted on; the second 0.2 is acted
  on and sets the layer index to 1 + round((0.2 - 0.2) / 0.2) = 1 and the last acted-on Z to
  0.2; the 0.4 is again only checked, and the layer index stays 1.
\<close>

theorem layer_detect_z_sequence:
  "LayerDetect_start LayerDetect_init
     (empty_metadata\<lparr>layer_height := Some (2 / 10), first_layer_height := Some (2 / 10)\<rparr>) =
     Returned \<lparr>l_layer = 0, l_layer_z = 0, l_active = True, l_layer_height = 2 / 10,
       l_fl_height = 2 / 10, l_layer_count = 99999999999, l_check_next = False\<rparr> \<and>
   LayerDetect_update
     \<lparr>l_layer = 0, l_layer_z = 0, l_active = True, l_layer_height = 2 / 10,
       l_fl_height = 2 / 10, l_layer_count = 99999999999, l_check_next = False\<rparr>
     [0, 0, 0, 0] =
     Returned \<lparr>l_layer = 0, l_layer_z = 0, l_active = True, l_layer_height = 2 / 10,
       l_fl_height = 2 / 10, l_layer_count = 99999999999, l_check_next = False\<rparr> \<and>
   LayerDetect_update
     \<lparr>l_layer = 0, l_layer_z = 0, l_active = True, l_layer_height = 2 / 10,
       l_fl_height = 2 / 10, l_layer_count = 99999999999, l_check_next = False\<rparr>
     [0, 0, 2 / 10, 0] =
     Returned \<lparr>l_layer = 0, l_layer_z = 0, l_active = True, l_layer_height = 2 / 10,
       l_fl_height = 2 / 10, l_layer_count = 99999999999, l_check_next = True\<rparr> \<and>
   LayerDetect_update
     \<lparr>l_layer = 0, l_layer_z = 0, l_active = True, l_layer_height = 2 / 10,
       l_fl_height = 2 / 10, l_layer_count = 99999999999, l_check_next = True\<rparr>
     [0, 0, 2 / 10, 0] =
     Returned \<lparr>l_layer = 1 + py_int ((2 / 10 - 2 / 10) / (2 / 10) + 1 / 2), l_layer_z = 2 / 10,
       l_active = True, l_layer_height = 2 / 10,
       l_fl_height = 2 / 10, l_layer_count = 99999999999, l_check_next = False\<rparr> \<and>
   1 + py_int ((2 / 10 - 2 / 10) / (2 / 10) + 1 / 2) = 1 \<and>
   LayerDetect_update
     \<lparr>l_layer = 1, l_layer_z = 2 / 10, l_active = True, l_layer_height = 2 / 10,
       l_fl_height = 2 / 10, l_layer_count = 99999999999, l_check_next = False\<rparr>
     [0, 0, 4 / 10, 0] =
     Returned \<lparr>l_layer = 1, l_layer_z = 2 / 10, l_active = True, l_layer_height = 2 / 10,
       l_fl_height = 2 / 10, l_layer_count = 99999999999, l_check_next = True\<rparr>"
  by (simp add: LayerDetect_start_def LayerDetect_init_def LayerDetect_reset_def
      empty_metadata_def LayerDetect_update_def py_int_def)

section \<open>Properties of the state push\<close>

text \<open>
  Claim C7, as stated, does not hold for every state value: pushing the state that is
  already cached (here \<open>''offline''\<close>, the state at construction) twice sends no frame at
  all, on a connected session with a live socket.
\<close>

theorem update_state_twice_counterexample:
  "sent (update_state ''offline'' (update_state ''offline'' example_session)) = []"
  by (simp add: update_state_def example_session_def example_config_def SimplyPrint_init_def set_ws_url_def dict_get_def
      ReportCache_init_def)

text \<open>
  Claim C7, amended. Calling \<open>update_state new_state\<close> twice in a row gives the same state
  as calling it once: the second call leaves the cache unchanged and sends nothing. The
  first call sends exactly one \<^verbatim>\<open>state_change\<close> frame when \<open>new_state\<close> differs from the
  cached state and the session is connected with a live socket, and no frame otherwise.
\<close>

theorem update_state_idempotent:
  "update_state new_state (update_state new_state s) = update_state new_state s \<and>
   state (cache (update_state new_state s)) = new_state \<and>
   sent (update_state new_state s) =
     (if state (cache s) \<noteq> new_state \<and> connected s \<and> ws_open s
      then sent s @ [(''state_change'', JObj [(''new'', JStr new_state)])]
      else sent s) \<and>
   sent (update_state new_state (update_state new_state s)) = sent (update_state new_state s)"
  by (simp add: update_state_def send_sp_def reset_keepalive_def)

theorem update_state_idempotent_witness:
  "sent (update_state ''printing'' (update_state ''printing'' example_session)) =
     [(''state_change'', JObj [(''new'', JStr ''printing'')])]"
  using update_state_idempotent [of "''printing''"
      "example_session"]
  by (simp add: example_session_def example_config_def SimplyPrint_init_def set_ws_url_def dict_get_def ReportCache_init_def)

section \<open>Properties of the queue of missed job events\<close>

lemma missed_job_events_init:
  "missed_job_events (SimplyPrint_init cfg) = []"
  by (simp add: SimplyPrint_init_def set_ws_url_def Let_def split: option.splits)

lemma send_job_event_keeps_bound:
  "length (missed_job_events s) \<le> 10 \<Longrightarrow> length (missed_job_events (send_job_event ji t s)) \<le> 10"
  by (cases "missed_job_events s")
     (auto simp: send_job_event_def send_sp_def reset_keepalive_def Let_def)

text \<open>
  Claim C5. While the session is not connected and the queue holds at most 10 events (it
  is empty at construction), \<open>send_job_event\<close> leaves at most 10 events in the queue: below
  10 the new event is appended, and at 10 the new event is appended and the oldest one is
  dropped, the others keeping their order.
\<close>

theorem missed_job_events_bounded:
  "\<not> connected s \<Longrightarrow> length (missed_job_events s) \<le> 10 \<Longrightarrow>
     length (missed_job_events (send_job_event ji t s)) \<le> 10 \<and>
     (length (missed_job_events s) < 10 \<longrightarrow>
        missed_job_events (send_job_event ji t s) = missed_job_events s @ [missed_event ji t s]) \<and>
     (length (missed_job_events s) = 10 \<longrightarrow>
        missed_job_events (send_job_event ji t s) =
          tl (missed_job_events s) @ [missed_event ji t s])"
  by (cases "missed_job_events s") (auto simp: send_job_event_def Let_def)

theorem missed_job_events_bounded_witness:
  "\<not> connected example_full_queue \<and>
   length (missed_job_events example_full_queue) \<le> 10 \<and>
   missed_job_events (send_job_event [(''finished'', JBool True)] (Fin 11) example_full_queue) =
       [[(''delay'', JFloat (Fin 2))],
        [(''delay'', JFloat (Fin 3))],
        [(''delay'', JFloat (Fin 4))],
        [(''delay'', JFloat (Fin 5))],
        [(''delay'', JFloat (Fin 6))],
        [(''delay'', JFloat (Fin 7))],
        [(''delay'', JFloat (Fin 8))],
        [(''delay'', JFloat (Fin 9))],
        [(''delay'', JFloat (Fin 10))],
        [(''finished'', JBool True), (''delay'', JFloat (Fin 11))]]"
  using missed_job_events_bounded [of "example_full_queue" "[(''finished'', JBool True)]"
      "Fin 11"]
  by (simp add: example_full_queue_def example_config_def SimplyPrint_init_def set_ws_url_def dict_get_def missed_event_def
      dict_update_def ReportCache_init_def)

section \<open>Properties of the message handler\<close>

lemma send_sp_reconnect_delay [simp]:
  "reconnect_delay (send_sp e d s) = reconnect_delay s"
  by (simp add: send_sp_def reset_keepalive_def)

lemma replay_missed_reconnect_delay:
  "reconnect_delay (outcome_state (replay_missed t seen evs s)) = reconnect_delay s"
  by (induction evs arbitrary: seen s) (simp_all add: Let_def split: option.splits sum.splits)

lemma push_initial_head_reconnect_delay [simp]:
  "reconnect_delay (push_initial_head s) = reconnect_delay s"
  by (simp add: push_initial_head_def Let_def)

lemma push_initial_tail_reconnect_delay [simp]:
  "reconnect_delay (push_initial_tail s) = reconnect_delay s"
  by (simp add: push_initial_tail_def Let_def)

lemma push_initial_state_reconnect_delay:
  "reconnect_delay (outcome_state (push_initial_state t s)) = reconnect_delay s"
proof (cases "replay_missed t [] (missed_job_events (push_initial_head s)) (push_initial_head s)")
  case (Returned s4)
  with replay_missed_reconnect_delay [of t "[]" "missed_job_events (push_initial_head s)" "push_initial_head s"]
  show ?thesis by (simp add: push_initial_state_def)
next
  case (Raised e s4)
  with replay_missed_reconnect_delay [of t "[]" "missed_job_events (push_initial_head s)" "push_initial_head s"]
  show ?thesis by (simp add: push_initial_state_def)
qed

lemma intervals_loop_reconnect_delay:
  "reconnect_delay (outcome_state (intervals_loop iv s)) = reconnect_delay s"
  by (induction iv arbitrary: s) (auto split: option.splits sum.splits)

lemma intervals_loop_returns:
  "list_all (\<lambda>kv. interval_value_ok (snd kv)) iv \<Longrightarrow> \<exists>s'. intervals_loop iv s = Returned s'"
  by (induction iv arbitrary: s)
     (auto simp: interval_value_ok_def split: option.splits sum.splits)

lemma intervals_loop_raises:
  "\<not> list_all (\<lambda>kv. interval_value_ok (snd kv)) iv \<Longrightarrow> \<exists>e s'. intervals_loop iv s = Raised e s'"
proof (induction iv arbitrary: s)
  case Nil
  then show ?case by simp
next
  case (Cons p iv)
  obtain key val where p: "p = (key, val)" by (cases p)
  show ?case
  proof (cases "interval_value_ok val")
    case True
    then obtain x f where x: "num_of val = Some x" "div_1000 x = Inr f"
      by (auto simp: interval_value_ok_def split: option.splits sum.splits)
    from True Cons.prems p have "\<not> list_all (\<lambda>kv. interval_value_ok (snd kv)) iv" by simp
    from Cons.IH [OF this] x p show ?thesis by simp
  next
    case False
    then show ?thesis
      using p by (auto simp: interval_value_ok_def split: option.splits sum.splits)
  qed
qed

lemma connected_data_reconnect_delay:
  "reconnect_delay (outcome_state (connected_data data s)) = reconnect_delay s"
proof (cases data)
  case (JObj d)
  show ?thesis
  proof (cases "dict_get d ''interval''")
    case (JObj iv)
    with intervals_loop_reconnect_delay [of iv s] \<open>data = JObj d\<close> show ?thesis
      by (cases "intervals_loop iv s") (simp_all add: connected_data_def Let_def save_item_def)
  qed (simp_all add: connected_data_def Let_def save_item_def \<open>data = JObj d\<close>)
qed (simp_all add: connected_data_def)

lemma connected_data_returns:
  "connected_data_typed data \<Longrightarrow> \<exists>s'. connected_data data s = Returned s'"
proof (cases data)
  case (JObj d)
  assume t: "connected_data_typed data"
  show ?thesis
  proof (cases "dict_get d ''interval''")
    case (JObj iv)
    with t \<open>data = JObj d\<close> have "list_all (\<lambda>kv. interval_value_ok (snd kv)) iv"
      by (simp add: connected_data_typed_def)
    from intervals_loop_returns [OF this, of s] obtain s1 where "intervals_loop iv s = Returned s1" ..
    with JObj \<open>data = JObj d\<close> show ?thesis by (simp add: connected_data_def Let_def)
  qed (simp_all add: connected_data_def Let_def \<open>data = JObj d\<close>)
qed (simp_all add: connected_data_def connected_data_typed_def)

lemma connected_data_raises:
  "\<not> connected_data_typed data \<Longrightarrow> \<exists>e s'. connected_data data s = Raised e s'"
proof (cases data)
  case (JObj d)
  assume t: "\<not> connected_data_typed data"
  show ?thesis
  proof (cases "dict_get d ''interval''")
    case (JObj iv)
    with t \<open>data = JObj d\<close> have "\<not> list_all (\<lambda>kv. interval_value_ok (snd kv)) iv"
      by (simp add: connected_data_typed_def)
    from intervals_loop_raises [OF this, of s]
    obtain e s1 where "intervals_loop iv s = Raised e s1" by blast
    with JObj \<open>data = JObj d\<close> show ?thesis by (simp add: connected_data_def Let_def)
  qed (use t \<open>data = JObj d\<close> in \<open>simp_all add: connected_data_typed_def\<close>)
qed (simp_all add: connected_data_def connected_data_typed_def)

lemma connected_frame_delay:
  "connected_frame t data s = Returned s' \<Longrightarrow> reconnect_delay s' = 1"
proof -
  assume a: "connected_frame t data s = Returned s'"
  then obtain s1 where "push_initial_state t (s1\<lparr>reconnect_delay := 1\<rparr>) = Returned s'"
    by (auto simp: connected_frame_def split: outcome.splits)
  with push_initial_state_reconnect_delay [of t "s1\<lparr>reconnect_delay := 1\<rparr>"]
  show ?thesis by simp
qed

lemma connected_frame_typed_delay:
  "connected_data_typed data \<Longrightarrow> reconnect_delay (outcome_state (connected_frame t data s)) = 1"
proof -
  assume "connected_data_typed data"
  from connected_data_returns [OF this]
  obtain s1 where "connected_data data (s\<lparr>connected := True, reconnect_token := JNull\<rparr>) = Returned s1"
    by blast
  with push_initial_state_reconnect_delay [of t "s1\<lparr>reconnect_delay := 1\<rparr>"]
  show ?thesis by (simp add: connected_frame_def)
qed

lemma connected_frame_untyped:
  assumes "\<not> connected_data_typed data"
  shows "(\<exists>e s'. connected_frame t data s = Raised e s') \<and>
    reconnect_delay (outcome_state (connected_frame t data s)) = reconnect_delay s"
proof -
  let ?s0 = "s\<lparr>connected := True, reconnect_token := JNull\<rparr>"
  from connected_data_raises [OF assms]
  obtain e s1 where r: "connected_data data ?s0 = Raised e s1" by blast
  with connected_data_reconnect_delay [of data ?s0] have "reconnect_delay s1 = reconnect_delay s"
    by simp
  with r show ?thesis by (simp add: connected_frame_def)
qed

lemma bitlen_example_huge:
  "bitlen (2 ^ 1024) = 1025"
  using bitlen_pow2 [of 1 1024] by (simp del: power_numeral add: compute_bitlen)

lemma div_1000_example_huge:
  "div_1000 (PInt example_huge) = Inl OverflowError"
  using bitlen_example_huge
  by (simp add: div_1000_def example_huge_def round_double_def ilog2_def pow2_def
      round_even_def)

lemma interval_value_examples:
  "interval_value_ok (JInt 5000)" "\<not> interval_value_ok (JInt example_huge)"
  "\<not> interval_value_ok (JStr ''fast'')"
  by (simp_all add: interval_value_ok_def div_1000_example_huge)
     (simp add: div_1000_def round_double_def ilog2_def pow2_def round_even_def compute_bitlen)

text \<open>
  Claim C6, as stated, does not hold for every \<^verbatim>\<open>connected\<close> frame. After an \<^verbatim>\<open>error\<close>
  frame the delay is 30; the frame
  \<^verbatim>\<open>{"type": "connected", "data": {"interval": {"job": "fast"}}}\<close> makes
  \<^verbatim>\<open>val / 1000.\<close> raise \<^verbatim>\<open>TypeError\<close> before \<^verbatim>\<open>self.reconnect_delay = 1.\<close> is
  reached, and the delay is still 30 afterwards.
\<close>

theorem reconnect_delay_connected_counterexample:
  "reconnect_delay example_after_error = 30 \<and>
   process_message (Fin 101) True (Some (JObj example_bad_interval)) example_after_error =
     Raised TypeError (example_after_error\<lparr>connected := True\<rparr>) \<and>
   reconnect_delay (outcome_state
     (process_message (Fin 101) True (Some (JObj example_bad_interval)) example_after_error)) = 30"
  by (simp add: example_after_error_def example_bad_interval_def example_config_def
      SimplyPrint_init_def set_ws_url_def dict_get_def dict_get_default_def error_frame_def
      reset_keepalive_def process_message_def connected_frame_def connected_data_def)

text \<open>
  Claim C6, amended. The reconnect delay is 1 at construction. An \<^verbatim>\<open>error\<close> frame is always
  processed to the end and leaves the delay at 30 and no reconnect token. After a
  \<^verbatim>\<open>connected\<close> frame the delay is 1 when the data of the frame is \<^verbatim>\<open>None\<close> or a
  dictionary whose \<^verbatim>\<open>interval\<close> entry, if it is a dictionary, holds only numbers that
  \<^verbatim>\<open>val / 1000.\<close> accepts, whatever the replay that follows does; on any other data the
  handler raises before the assignment and the delay is what it was. In particular the
  delay is 1 after every \<^verbatim>\<open>connected\<close> frame that is processed to the end.
\<close>

theorem reconnect_delay_sequence:
  "reconnect_delay (SimplyPrint_init cfg) = 1 \<and>
   (dict_get_default packet ''type'' (JStr []) = JStr ''error'' \<longrightarrow>
      process_message t k (Some (JObj packet)) s = Returned (error_frame (reset_keepalive s)) \<and>
      reconnect_delay (error_frame (reset_keepalive s)) = 30 \<and>
      reconnect_token (error_frame (reset_keepalive s)) = JNull) \<and>
   (dict_get_default packet ''type'' (JStr []) = JStr ''connected'' \<longrightarrow>
      reconnect_delay (outcome_state (process_message t k (Some (JObj packet)) s)) =
        (if connected_data_typed (dict_get packet ''data'') then 1 else reconnect_delay s) \<and>
      (\<not> connected_data_typed (dict_get packet ''data'') \<longrightarrow>
         (\<exists>e s'. process_message t k (Some (JObj packet)) s = Raised e s')) \<and>
      (\<forall>s'. process_message t k (Some (JObj packet)) s = Returned s' \<longrightarrow> reconnect_delay s' = 1))"
proof -
  have init: "reconnect_delay (SimplyPrint_init cfg) = 1"
    by (simp add: SimplyPrint_init_def set_ws_url_def Let_def split: option.splits)
  have err: "dict_get_default packet ''type'' (JStr []) = JStr ''error'' \<longrightarrow>
      process_message t k (Some (JObj packet)) s = Returned (error_frame (reset_keepalive s)) \<and>
      reconnect_delay (error_frame (reset_keepalive s)) = 30 \<and>
      reconnect_token (error_frame (reset_keepalive s)) = JNull"
    by (simp add: process_message_def error_frame_def)
  have con: "process_message t k (Some (JObj packet)) s =
               connected_frame t (dict_get packet ''data'') (reset_keepalive s)"
    if "dict_get_default packet ''type'' (JStr []) = JStr ''connected''"
    using that by (simp add: process_message_def)
  have keep: "reconnect_delay (reset_keepalive s) = reconnect_delay s"
    by (simp add: reset_keepalive_def)
  have delay: "reconnect_delay (outcome_state (connected_frame t data (reset_keepalive s))) =
        (if connected_data_typed data then 1 else reconnect_delay s)" for data
    using connected_frame_typed_delay [of data t "reset_keepalive s"]
      connected_frame_untyped [of data t "reset_keepalive s"] keep
    by simp
  have raises: "\<not> connected_data_typed data \<longrightarrow>
        (\<exists>e s'. connected_frame t data (reset_keepalive s) = Raised e s')" for data
    using connected_frame_untyped [of data t "reset_keepalive s"] by simp
  have ret: "\<forall>s'. connected_frame t data (reset_keepalive s) = Returned s' \<longrightarrow>
        reconnect_delay s' = 1" for data
    using connected_frame_delay by blast
  from init err con delay raises ret show ?thesis by simp
qed

theorem reconnect_delay_sequence_witness:
  "reconnect_delay (SimplyPrint_init example_config) = 1 \<and>
   reconnect_delay (outcome_state (process_message (Fin 100) True
      (Some (JObj [(''type'', JStr ''error''), (''data'', JNull)]))
      (SimplyPrint_init example_config))) = 30 \<and>
   reconnect_delay (outcome_state (process_message (Fin 101) True
      (Some (JObj [(''type'', JStr ''connected''),
         (''data'', JObj [(''interval'', JObj [(''job'', JInt 5000)]),
                          (''reconnect_token'', JStr ''abc'')])]))
      example_after_error)) = 1 \<and>
   \<not> connected_data_typed (JObj [(''interval'', JObj [(''job'', JInt example_huge)])]) \<and>
   reconnect_delay (outcome_state (process_message (Fin 101) True
      (Some (JObj [(''type'', JStr ''connected''),
         (''data'', JObj [(''interval'', JObj [(''job'', JInt example_huge)])])]))
      example_after_error)) = 30"
  using reconnect_delay_sequence [of "example_config"
      "[(''type'', JStr ''error''), (''data'', JNull)]" "Fin 100" True
      "SimplyPrint_init example_config"]
    reconnect_delay_sequence [of "example_config"
      "[(''type'', JStr ''connected''),
         (''data'', JObj [(''interval'', JObj [(''job'', JInt 5000)]),
                          (''reconnect_token'', JStr ''abc'')])]" "Fin 101" True
      "example_after_error"]
    reconnect_delay_sequence [of "example_config"
      "[(''type'', JStr ''connected''),
         (''data'', JObj [(''interval'', JObj [(''job'', JInt example_huge)])])]" "Fin 101" True
      "example_after_error"]
  by (simp add: dict_get_default_def dict_get_def connected_data_typed_def
      interval_value_examples example_after_error_def error_frame_def reset_keepalive_def)

text \<open>
  Claim C4 fails on the code. On a \<^verbatim>\<open>set_up\<close> frame whose data holds a printer id and a
  name, the handler reads the local variable \<open>token\<close>, which is unbound on this path, and
  raises \<^verbatim>\<open>UnboundLocalError\<close> before anything is stored: neither the id nor the name is
  persisted and the connect URL is not recomputed.
\<close>

theorem set_up_frame_raises:
  "process_message t k
     (Some (JObj [(''type'', JStr ''set_up''),
                  (''data'', JObj [(''id'', JStr ''1234''), (''name'', JStr ''Voron'')])])) s =
     Raised UnboundLocalError (reset_keepalive s) \<and>
   sp_info (reset_keepalive s) = sp_info s \<and> spdb (reset_keepalive s) = spdb s \<and>
   connect_url (reset_keepalive s) = connect_url s"
  by (simp add: process_message_def dict_get_default_def dict_get_def set_up_frame_def
      reset_keepalive_def)

lemma set_up_frame_unbound:
  "dict_get_default packet ''type'' (JStr []) = JStr ''set_up'' \<Longrightarrow>
   dict_get packet ''data'' = JObj d \<Longrightarrow>
   process_message t k (Some (JObj packet)) s = Raised UnboundLocalError (reset_keepalive s)"
  by (simp add: process_message_def set_up_frame_def)

section \<open>Properties of the print actions\<close>

text \<open>
  Claim C3, as stated, does not hold in its second half. A \<^verbatim>\<open>resume\<close> demand while the
  cached state is \<open>''printing''\<close> is a no-op because of the state, and the coroutine then
  neither sleeps nor sends anything: \<open>ret\<close> keeps its initial value \<^verbatim>\<open>""\<close>, which is not
  \<^verbatim>\<open>None\<close>.
\<close>

theorem print_action_mismatch_counterexample:
  "sent (request_print_action klippy_request_fails id ''resume'' example_printing) = [] \<and>
   slept (request_print_action klippy_request_fails id ''resume'' example_printing) = []"
  by (simp add: request_print_action_def example_printing_def example_config_def SimplyPrint_init_def set_ws_url_def dict_get_def
      ReportCache_init_def Let_def)

text \<open>
  Claim C3, amended. While the Klippy connection reports connected, a \<^verbatim>\<open>pause\<close>,
  \<^verbatim>\<open>resume\<close> or \<^verbatim>\<open>cancel\<close> demand creates the task \<^verbatim>\<open>_request_print_action\<close>. That
  coroutine calls the Klippy API only if the cached state permits the action (pause
  requires printing, resume requires paused, cancel requires printing or paused); when the
  state does not permit it, the state of the component is left as it is: nothing is
  called, nothing is sent, and there is no delay. When the API was called and returned
  \<^verbatim>\<open>None\<close>, the coroutine sleeps 0.05 s and then calls \<^verbatim>\<open>_update_state\<close> with the
  state cached at its start; when the API returned a result, nothing more is done.
\<close>

theorem request_print_action_guarded:
  "(a = ''pause'' \<or> a = ''resume'' \<or> a = ''cancel'' \<longrightarrow>
      process_demand True (JStr a) args s =
        Returned (s\<lparr>tasks := tasks s @ [RequestPrintAction (JStr a)]\<rparr>)) \<and>
   (\<not> state_permits a (state (cache s)) \<longrightarrow> request_print_action klippy during_sleep a s = s) \<and>
   (state_permits a (state (cache s)) \<longrightarrow>
      request_print_action klippy during_sleep a s =
        (case fst (call_klippy klippy a s) of
           None \<Rightarrow>
             update_state (state (cache s))
               (during_sleep ((snd (call_klippy klippy a s))
                  \<lparr>slept := slept (snd (call_klippy klippy a s)) @ [5 / 100]\<rparr>))
         | Some r \<Rightarrow> snd (call_klippy klippy a s)))"
proof -
  have demand: "a = ''pause'' \<or> a = ''resume'' \<or> a = ''cancel'' \<longrightarrow>
      process_demand True (JStr a) args s =
        Returned (s\<lparr>tasks := tasks s @ [RequestPrintAction (JStr a)]\<rparr>)"
    by (simp add: process_demand_def)
  have noop: "\<not> state_permits a (state (cache s)) \<longrightarrow>
      request_print_action klippy during_sleep a s = s"
    by (auto simp: state_permits_def request_print_action_def Let_def)
  have act: "state_permits a (state (cache s)) \<longrightarrow>
      request_print_action klippy during_sleep a s =
        (case fst (call_klippy klippy a s) of
           None \<Rightarrow>
             update_state (state (cache s))
               (during_sleep ((snd (call_klippy klippy a s))
                  \<lparr>slept := slept (snd (call_klippy klippy a s)) @ [5 / 100]\<rparr>))
         | Some r \<Rightarrow> snd (call_klippy klippy a s))"
    by (cases "call_klippy klippy a s")
       (auto simp: state_permits_def request_print_action_def Let_def split: option.splits)
  from demand noop act show ?thesis by blast
qed

theorem request_print_action_guarded_witness:
  "state_permits ''pause'' ''printing'' \<and>
   sent (request_print_action klippy_request_fails id ''pause'' example_printing) =
     [(''state_change'', JObj [(''new'', JStr ''pausing'')]),
      (''state_change'', JObj [(''new'', JStr ''printing'')])] \<and>
   slept (request_print_action klippy_request_fails id ''pause'' example_printing) = [5 / 100] \<and>
   klippy_calls (request_print_action klippy_request_fails id ''pause'' example_printing) = [''pause''] \<and>
   \<not> state_permits ''resume'' ''printing'' \<and>
   request_print_action klippy_request_fails id ''resume'' example_printing = example_printing"
  using request_print_action_guarded [of "''pause''" "[]"
      "example_printing" klippy_request_fails id]
    request_print_action_guarded [of "''resume''" "[]"
      "example_printing" klippy_request_fails id]
  by (simp add: state_permits_def call_klippy_def klippy_request_fails_def
      on_pause_requested_def update_state_def send_sp_def reset_keepalive_def example_printing_def example_config_def SimplyPrint_init_def set_ws_url_def dict_get_def ReportCache_init_def)

end
